theory Spec2Isabelle
  imports Complex_Main
begin

section \<open>Strings as Python sees them\<close>

text \<open>
  A Python \<open>str\<close> is modelled as a \<open>string\<close> whose characters are the code points
  below 256. \<open>is_space\<close> is \<open>str.isspace\<close> on one such character, which is also the
  class \<open>\s\<close> of the \<open>re\<close> module for \<open>str\<close> patterns: tab, line feed, vertical
  tab, form feed, carriage return, the separators 28 to 31, the blank, NEL (133) and the
  no-break space (160).
\<close>

definition is_space :: "char \<Rightarrow> bool" where
  "is_space c = (of_char c \<in> {9::nat, 10, 11, 12, 13, 28, 29, 30, 31, 32, 133, 160})"

text \<open>\<open>str.lstrip()\<close>, \<open>str.rstrip()\<close> and \<open>str.strip()\<close> without argument.\<close>

definition lstrip :: "string \<Rightarrow> string" where
  "lstrip s = dropWhile is_space s"

definition rstrip :: "string \<Rightarrow> string" where
  "rstrip s = rev (dropWhile is_space (rev s))"

definition strip :: "string \<Rightarrow> string" where
  "strip s = rstrip (lstrip s)"

section \<open>Text normalizer (\<open>app/utils/text_utils.py\<close>)\<close>

text \<open>
  \<open>re.sub(r"\s+", " ", text)\<close>: scanning from the left, every maximal run of whitespace
  is replaced by one blank; all other characters are kept.
\<close>

function sub_ws :: "string \<Rightarrow> string" where
  "sub_ws [] = []"
| "sub_ws (c # cs) =
     (if is_space c then CHR '' '' # sub_ws (dropWhile is_space cs)
      else c # sub_ws cs)"
  by pat_completeness auto
termination
  by (relation "measure length") (auto simp: length_dropWhile_le less_Suc_eq_le)

text \<open>\<open>clean_text\<close>: \<open>re.sub(r"\s+", " ", text).strip()\<close>.\<close>

definition clean_text :: "string \<Rightarrow> string" where
  "clean_text t = strip (sub_ws t)"

text \<open>
  \<open>str.lower()\<close> on code points below 256: the ASCII capitals and the Latin-1 capitals
  192 to 222, the multiplication sign 215 apart, move up by 32.
\<close>

definition lower_char :: "char \<Rightarrow> char" where
  "lower_char c =
     (let n = (of_char c :: nat) in
      if (65 \<le> n \<and> n \<le> 90) \<or> (192 \<le> n \<and> n \<le> 222 \<and> n \<noteq> 215)
      then char_of (n + 32) else c)"

definition lower :: "string \<Rightarrow> string" where
  "lower s = map lower_char s"

text \<open>\<open>str.startswith\<close> and the substring test \<open>needle in hay\<close>.\<close>

definition startswith :: "string \<Rightarrow> string \<Rightarrow> bool" where
  "startswith hay needle = (take (length needle) hay = needle)"

fun contains :: "string \<Rightarrow> string \<Rightarrow> bool" where
  "contains needle [] = (needle = [])"
| "contains needle (c # cs) = (startswith (c # cs) needle \<or> contains needle cs)"

definition COMMON_SKILLS :: "string list" where
  "COMMON_SKILLS =
     [''python'', ''java'', ''c++'', ''sql'', ''aws'', ''azure'', ''gcp'', ''docker'',
      ''kubernetes'', ''pandas'', ''numpy'', ''tensorflow'', ''pytorch'', ''nlp'',
      ''machine learning'', ''data analysis'', ''react'', ''javascript'', ''django'',
      ''flask'', ''spark'', ''hadoop'', ''tableau'']"

text \<open>\<open>extract_skills\<close>: the skills of the vocabulary that occur in the lowered text.\<close>

definition extract_skills :: "string \<Rightarrow> string set" where
  "extract_skills t = (let lowered = lower t in set (filter (\<lambda>skill. contains skill lowered) COMMON_SKILLS))"

text \<open>
  \<open>estimate_years_of_experience\<close> scans for \<open>(\d{1,2})(?:\+)?\s*(?:years|yrs)\<close>, ignoring
  case. \<open>match_years_at\<close> is one attempt of the regex engine anchored at the head of the
  text: one or two digits (two when two are there), an optional plus sign, any run of
  whitespace, then one of the two words. Giving back a digit, the plus sign or a
  whitespace character never helps, since the word must start where they stand, so the
  greedy choice is the only one that can match. The result is \<open>int(m.group(1))\<close> and the
  length of the match.
\<close>

definition is_digit :: "char \<Rightarrow> bool" where
  "is_digit c = (48 \<le> (of_char c :: nat) \<and> (of_char c :: nat) \<le> 57)"

definition digit_val :: "char \<Rightarrow> nat" where
  "digit_val c = of_char c - 48"

definition match_years_at :: "string \<Rightarrow> (nat \<times> nat) option" where
  "match_years_at s =
     (case s of
        [] \<Rightarrow> None
      | d1 # r1 \<Rightarrow>
          if \<not> is_digit d1 then None
          else
            let (v, nd, r2) =
                  (case r1 of
                     [] \<Rightarrow> (digit_val d1, 1, r1)
                   | d2 # r \<Rightarrow>
                       if is_digit d2 then (10 * digit_val d1 + digit_val d2, 2, r)
                       else (digit_val d1, 1, r1));
                (np, r3) =
                  (case r2 of
                     [] \<Rightarrow> (0, r2)
                   | p # r \<Rightarrow> if p = CHR ''+'' then (1, r) else (0, r2));
                ns = length (takeWhile is_space r3);
                r4 = dropWhile is_space r3
            in if startswith (lower r4) ''years'' then Some (v, nd + np + ns + 5)
               else if startswith (lower r4) ''yrs'' then Some (v, nd + np + ns + 3)
               else None)"

text \<open>
  \<open>pattern.finditer(text)\<close>: the matches from left to right, without overlap; after a
  match the scan goes on where the match ended.
\<close>

function finditer_years :: "string \<Rightarrow> nat list" where
  "finditer_years [] = []"
| "finditer_years (c # cs) =
     (case match_years_at (c # cs) of
        None \<Rightarrow> finditer_years cs
      | Some (v, n) \<Rightarrow> v # finditer_years (drop (n - 1) cs))"
  by pat_completeness auto
termination
  by (relation "measure length") (auto simp: less_Suc_eq_le)

definition estimate_years_of_experience :: "string \<Rightarrow> real option" where
  "estimate_years_of_experience t =
     (let matches = finditer_years t in
      if matches \<noteq> [] then Some (real (sum_list matches) / real (length matches))
      else None)"

text \<open>
  \<open>split_sentences\<close>: \<open>re.split(r"(?<=[.!?])\s+", text)\<close> cuts at every whitespace run
  that stands right after a full stop, an exclamation mark or a question mark; the
  pieces are stripped and the empty ones dropped.
\<close>

definition is_sentence_end :: "char \<Rightarrow> bool" where
  "is_sentence_end c = (c = CHR ''.'' \<or> c = CHR ''!'' \<or> c = CHR ''?'')"

function re_split_sentences :: "string \<Rightarrow> string \<Rightarrow> string list" where
  "re_split_sentences cur [] = [cur]"
| "re_split_sentences cur (c # cs) =
     (if is_sentence_end c \<and> cs \<noteq> [] \<and> is_space (hd cs)
      then (cur @ [c]) # re_split_sentences [] (dropWhile is_space cs)
      else re_split_sentences (cur @ [c]) cs)"
  by pat_completeness auto
termination
  by (relation "measure (\<lambda>(cur, s). length s)") (auto simp: length_dropWhile_le less_Suc_eq_le)

definition split_sentences :: "string \<Rightarrow> string list" where
  "split_sentences t = filter (\<lambda>s. s \<noteq> []) (map strip (re_split_sentences [] t))"

text \<open>\<open>" ".join(parts)\<close>.\<close>

fun join_space :: "string list \<Rightarrow> string" where
  "join_space [] = []"
| "join_space [x] = x"
| "join_space (x # y # ys) = x @ '' '' @ join_space (y # ys)"

section \<open>Generation client (\<open>app/utils/llm_client.py\<close>)\<close>

text \<open>The exceptions the modelled code can raise, as values.\<close>

datatype py_error =
    RuntimeError string
  | ValueError
  | IndexError
  | RequestError string
  | OSError string

text \<open>
  \<open>str.splitlines()\<close>: a line ends at a line feed, a carriage return (with a line feed
  right after it, the two count as one), a vertical tab, a form feed, one of the
  separators 28 to 30 or NEL (133); the text after the last boundary is a line only when
  it is not empty.
\<close>

definition is_linebreak :: "char \<Rightarrow> bool" where
  "is_linebreak c = (of_char c \<in> {10::nat, 11, 12, 13, 28, 29, 30, 133})"

function splitlines :: "string \<Rightarrow> string list" where
  "splitlines [] = []"
| "splitlines (c # cs) =
     (let line = takeWhile (\<lambda>x. \<not> is_linebreak x) (c # cs);
          rest = dropWhile (\<lambda>x. \<not> is_linebreak x) (c # cs)
      in case rest of
           [] \<Rightarrow> [line]
         | b # rest' \<Rightarrow>
             line # splitlines
               (if b = char_of (13::nat) \<and> rest' \<noteq> [] \<and> hd rest' = char_of (10::nat)
                then tl rest' else rest'))"
  by pat_completeness auto
termination
proof (relation "measure length")
  show "wf (measure length)" by simp
next
  fix c :: char and cs line rest b rest'
  assume r: "rest = dropWhile (\<lambda>x. \<not> is_linebreak x) (c # cs)" and "rest = b # rest'"
  then have "length (b # rest') \<le> length (c # cs)"
    by (metis length_dropWhile_le)
  then have "length rest' < length (c # cs)" by simp
  moreover have "length (tl rest') \<le> length rest'" by simp
  ultimately show
    "(if b = char_of (13::nat) \<and> rest' \<noteq> [] \<and> hd rest' = char_of (10::nat) then tl rest' else rest',
      c # cs) \<in> measure length"
    by auto
qed

text \<open>
  The dictionary \<open>sections\<close> of \<open>_parse_llm_response\<close> and the dictionary it returns are
  association lists in insertion order; \<open>dict_set\<close> is the assignment \<open>d[k] = v\<close> and
  \<open>dict_get\<close> the read \<open>d[k]\<close> of a key that is present.
\<close>

type_synonym feedback = "(string \<times> string) list"

fun dict_set :: "string \<Rightarrow> string \<Rightarrow> feedback \<Rightarrow> feedback" where
  "dict_set k v [] = [(k, v)]"
| "dict_set k v ((k', v') # d) = (if k' = k then (k, v) # d else (k', v') # dict_set k v d)"

fun dict_get :: "feedback \<Rightarrow> string \<Rightarrow> string" where
  "dict_get [] k = []"
| "dict_get ((k', v') # d) k = (if k' = k then v' else dict_get d k)"

text \<open>\<open>line.split(":", 1)[-1]\<close>: the text after the first colon, the whole line when it has none.\<close>

definition after_first_colon :: "string \<Rightarrow> string" where
  "after_first_colon line =
     (if CHR '':'' \<in> set line then tl (dropWhile (\<lambda>x. x \<noteq> CHR '':'') line) else line)"

text \<open>One turn of the loop over the lines: the state is \<open>current_key\<close> and \<open>sections\<close>.\<close>

definition parse_line :: "string option \<times> feedback \<Rightarrow> string \<Rightarrow> string option \<times> feedback" where
  "parse_line st line =
     (let current_key = fst st; sections = snd st; lower = lower line in
      if contains ''strength'' lower
      then (Some ''strengths'', dict_set ''strengths'' (strip (after_first_colon line)) sections)
      else if contains ''weakness'' lower
      then (Some ''weaknesses'', dict_set ''weaknesses'' (strip (after_first_colon line)) sections)
      else if contains ''reason'' lower
      then (Some ''reasoning'', dict_set ''reasoning'' (strip (after_first_colon line)) sections)
      else (case current_key of
              Some k \<Rightarrow> (current_key, dict_set k (dict_get sections k @ '' '' @ strip line) sections)
            | None \<Rightarrow> (current_key, sections)))"

definition parse_llm_response :: "string \<Rightarrow> feedback" where
  "parse_llm_response content =
     (let sections = [(''strengths'', []), (''weaknesses'', []), (''reasoning'', [])];
          final = snd (foldl parse_line (None, sections) (splitlines content))
      in map (\<lambda>(k, v). (k, if strip v \<noteq> [] then strip v else ''Not provided.'')) final)"

text \<open>
  \<open>CANDIDATE_FEEDBACK_PROMPT.format(...)\<close>: the template of \<open>app/prompts/analysis.py\<close>
  with its three fields filled in. The template has no other braces, so the call cannot fail.
\<close>

definition newline :: string where
  "newline = [char_of (10::nat)]"

definition format_prompt :: "string \<Rightarrow> string \<Rightarrow> string \<Rightarrow> string" where
  "format_prompt candidate_name job_description resume_text =
     newline @ ''You are an expert technical recruiter.'' @ newline
     @ ''Given the job description and a candidate resume, summarize:'' @ newline
     @ ''1. Key strengths (bullet friendly sentence).'' @ newline
     @ ''2. Potential weaknesses or red flags.'' @ newline
     @ ''3. Provide a short reasoning paragraph (2-3 sentences) on overall fit.'' @ newline
     @ newline
     @ ''Format response as:'' @ newline
     @ ''Strengths: ...'' @ newline
     @ ''Weaknesses: ...'' @ newline
     @ ''Reasoning: ...'' @ newline
     @ newline
     @ ''Candidate: '' @ candidate_name @ newline
     @ ''Job Description:'' @ newline
     @ job_description @ newline
     @ newline
     @ ''Resume:'' @ newline
     @ resume_text @ newline"

text \<open>
  \<open>analyze_candidate\<close>. The request to the generation service (\<open>_call_ollama\<close>:
  the HTTP call, the status check, the JSON decoding and the choice of the answer's
  field) is the parameter \<open>call_ollama\<close>: it maps the prompt to the text of the answer,
  or to the exception raised on the way. An answer that is not a string makes the parser
  raise inside the same \<open>try\<close> and counts as such an exception. The template is a
  non-empty constant, so the test \<open>if self.prompt_template\<close> always succeeds;
  \<open>except Exception\<close> catches every failure of the call and the heuristic summary follows.
\<close>

definition analyze_candidate ::
  "(string \<Rightarrow> py_error + string) \<Rightarrow> string \<Rightarrow> string \<Rightarrow> string \<Rightarrow> feedback" where
  "analyze_candidate call_ollama candidate_name job_description resume_text =
     (case call_ollama (format_prompt candidate_name job_description resume_text) of
        Inr content \<Rightarrow> parse_llm_response content
      | Inl exc \<Rightarrow>
          let sentences = split_sentences resume_text;
              summary = (if sentences \<noteq> [] then join_space (take 3 sentences)
                         else ''Summary unavailable.'')
          in [(''strengths'', ''Solid baseline profile with relevant experience.''),
              (''weaknesses'', ''Needs deeper alignment verification via interview.''),
              (''reasoning'', summary)])"

section \<open>Vector store (\<open>app/embeddings/embedding_service.py\<close>)\<close>

text \<open>
  Numbers are real numbers: the model leaves the rounding of floating point out. A
  two-dimensional array keeps its number of columns apart from its rows, since
  \<open>np.zeros((0, 384))\<close> has columns and no row; \<open>np_size\<close> is the attribute \<open>size\<close>.
\<close>

record ndarray =
  ncols :: nat
  rows :: "real list list"

definition np_size :: "ndarray \<Rightarrow> nat" where
  "np_size a = length (rows a) * ncols a"

definition np_zeros :: "nat \<Rightarrow> nat \<Rightarrow> ndarray" where
  "np_zeros n m = \<lparr>ncols = m, rows = replicate n (replicate m 0)\<rparr>"

text \<open>
  A resume is a dictionary with the key \<open>text\<close> (the field \<open>rtext\<close>) and, optionally,
  the key \<open>metadata\<close> (the field \<open>rmetadata\<close>); a metadata dictionary maps strings to
  strings.
\<close>

type_synonym metadata = "string \<rightharpoonup> string"

record resume =
  rtext :: string
  rmetadata :: "metadata option"

text \<open>
  The state of a \<open>VectorStoreManager\<close>: its three attributes and the two files of its
  directory, \<open>vectors.npz\<close> and \<open>meta.json\<close>, each holding what can be loaded from it, if
  anything.
\<close>

record vector_store =
  resume_lookup :: "string \<rightharpoonup> resume"
  vectors :: ndarray
  metadatas :: "metadata list"
  vectors_file :: "ndarray option"
  meta_file :: "metadata list option"

text \<open>\<open>str(idx)\<close> for a natural number: its decimal digits.\<close>

fun str_nat :: "nat \<Rightarrow> string" where
  "str_nat n =
     (if n < 10 then [char_of (48 + n)]
      else str_nat (n div 10) @ [char_of (48 + n mod 10)])"

declare str_nat.simps [simp del]

text \<open>
  Writing a file is an effect of the environment: the write succeeds, or it raises (no
  permission, no space left) and leaves in the file what the second component says. A
  \<open>disk\<close> gives the outcome of the two writes of \<open>_persist\<close>.
\<close>

datatype 'a write_outcome = Written | WriteFailed py_error "'a option"

record disk =
  savez_compressed :: "ndarray write_outcome"
  json_dump :: "metadata list write_outcome"

text \<open>
  \<open>_persist\<close>: \<open>np.savez_compressed\<close> on the array, then \<open>json.dump\<close> on the metadata list, with
  no exception handling: when the first write raises, the second is not tried. The result
  is the exception that leaves the call, if any, and the state after it.
\<close>

definition persist :: "disk \<Rightarrow> vector_store \<Rightarrow> py_error option \<times> vector_store" where
  "persist d s =
     (case savez_compressed d of
        WriteFailed exc left \<Rightarrow> (Some exc, s\<lparr>vectors_file := left\<rparr>)
      | Written \<Rightarrow>
          (case json_dump d of
             WriteFailed exc left \<Rightarrow> (Some exc, s\<lparr>vectors_file := Some (vectors s), meta_file := left\<rparr>)
           | Written \<Rightarrow>
               (None, s\<lparr>vectors_file := Some (vectors s), meta_file := Some (metadatas s)\<rparr>)))"

text \<open>
  The loop of \<open>build_store\<close> over \<open>enumerate(resumes, start=1)\<close>, on the two local lists
  and on the attribute \<open>_resume_lookup\<close>, which it updates in place.
\<close>

fun build_loop ::
  "nat \<Rightarrow> resume list \<Rightarrow> string list \<times> metadata list \<times> (string \<rightharpoonup> resume)
     \<Rightarrow> string list \<times> metadata list \<times> (string \<rightharpoonup> resume)" where
  "build_loop idx [] acc = acc"
| "build_loop idx (r # rs) (texts, mds, lookup) =
     (let resume_id = str_nat idx;
          md = [''candidate_id'' \<mapsto> resume_id]
                 ++ (case rmetadata r of None \<Rightarrow> Map.empty | Some m \<Rightarrow> m)
      in build_loop (Suc idx) rs (texts @ [rtext r], mds @ [md], lookup(resume_id \<mapsto> r)))"

text \<open>
  \<open>build_store\<close>. The embedding provider is the parameter \<open>embed_documents\<close>: it maps
  the texts to the array of their vectors, or to the exception the model raises; the
  parameter \<open>d\<close> is the outcome of the file writes. The two attributes are assigned
  before \<open>_persist\<close> is called, and nothing catches its exception. The result is the
  exception that leaves the call, if any, and the state after the call.
\<close>

definition build_store ::
  "(string list \<Rightarrow> py_error + ndarray) \<Rightarrow> disk \<Rightarrow> vector_store \<Rightarrow> resume list
     \<Rightarrow> py_error option \<times> vector_store" where
  "build_store embed_documents d s resumes =
     (let (texts, mds, lookup) = build_loop 1 resumes ([], [], Map.empty);
          s1 = s\<lparr>resume_lookup := lookup\<rparr>
      in if texts = []
         then (None, s1\<lparr>vectors := np_zeros 0 384, metadatas := []\<rparr>)
         else (case embed_documents texts of
                 Inl exc \<Rightarrow> (Some exc, s1)
               | Inr embeddings \<Rightarrow> persist d (s1\<lparr>vectors := embeddings, metadatas := mds\<rparr>)))"

text \<open>\<open>order[:k]\<close> for an integer \<open>k\<close>: a negative \<open>k\<close> counts from the end.\<close>

definition slice_to :: "'a list \<Rightarrow> int \<Rightarrow> 'a list" where
  "slice_to xs k = (if 0 \<le> k then take (nat k) xs else take (length xs - nat (- k)) xs)"

text \<open>The loop of \<open>similarity_search_with_scores\<close> over \<open>order\<close>; an index out of range raises.\<close>

fun collect_results ::
  "metadata list \<Rightarrow> real list \<Rightarrow> nat list \<Rightarrow> py_error + (metadata \<times> real) list" where
  "collect_results mds sims [] = Inr []"
| "collect_results mds sims (idx # order) =
     (if idx < length mds \<and> idx < length sims
      then (case collect_results mds sims order of
              Inl exc \<Rightarrow> Inl exc
            | Inr results \<Rightarrow> Inr ((mds ! idx, 1 - sims ! idx) # results))
      else Inl IndexError)"

definition not_initialized :: py_error where
  "not_initialized = RuntimeError ''Vector store is not initialized.''"

text \<open>
  \<open>similarity_search_with_scores\<close>. Two library functions are parameters:
  \<open>cosine_similarity\<close> (scikit-learn), on the query and one stored vector, and \<open>argsort\<close>
  (NumPy, called without \<open>kind\<close>), from the keys to the order of their indices.
  scikit-learn refuses a query whose length is not the number of columns.
\<close>

definition similarity_search_with_scores ::
  "(real list \<Rightarrow> real list \<Rightarrow> real) \<Rightarrow> (real list \<Rightarrow> nat list) \<Rightarrow> vector_store
     \<Rightarrow> real list \<Rightarrow> int option \<Rightarrow> py_error + (metadata \<times> real) list" where
  "similarity_search_with_scores cosine_similarity argsort s query_vector k =
     (if np_size (vectors s) = 0 then Inl not_initialized
      else if length query_vector \<noteq> ncols (vectors s) then Inl ValueError
      else
        let sims = map (cosine_similarity query_vector) (rows (vectors s));
            order = argsort (map uminus sims);
            order = (case k of
                       None \<Rightarrow> order
                     | Some k' \<Rightarrow> if k' \<noteq> 0 then slice_to order k' else order)
        in collect_results (metadatas s) sims order)"

definition get_resume_by_id :: "vector_store \<Rightarrow> string option \<Rightarrow> resume option" where
  "get_resume_by_id s resume_id = (case resume_id of None \<Rightarrow> None | Some i \<Rightarrow> resume_lookup s i)"

text \<open>
  What NumPy documents of \<open>argsort\<close> with its default, unstable kind: the result is a
  permutation of the indices along which the keys ascend. \<open>argsort_stable\<close> is the order a
  stable sort gives (\<open>kind="stable"\<close>).
\<close>

definition argsort_ok :: "(real list \<Rightarrow> nat list) \<Rightarrow> bool" where
  "argsort_ok argsort =
     (\<forall>keys. distinct (argsort keys) \<and> set (argsort keys) = {0..<length keys}
             \<and> sorted (map (\<lambda>i. keys ! i) (argsort keys)))"

definition argsort_stable :: "real list \<Rightarrow> nat list" where
  "argsort_stable keys = sort_key (\<lambda>i. keys ! i) [0..<length keys]"

text \<open>
  The cosine similarity of the glossary, for concrete runs: the dot product over the
  product of the norms, a zero norm counting as one as scikit-learn has it.
\<close>

definition dot :: "real list \<Rightarrow> real list \<Rightarrow> real" where
  "dot x y = sum_list (map (\<lambda>(a, b). a * b) (zip x y))"

definition norm_or_one :: "real list \<Rightarrow> real" where
  "norm_or_one x = (if dot x x = 0 then 1 else sqrt (dot x x))"

definition cosine :: "real list \<Rightarrow> real list \<Rightarrow> real" where
  "cosine x y = dot x y / (norm_or_one x * norm_or_one y)"

text \<open>
  The invariant of the store: as many metadata entries as rows, every row as long as
  the array is wide, and a width that is not zero (384 for the model in use).
\<close>

definition store_ok :: "vector_store \<Rightarrow> bool" where
  "store_ok s =
     (length (metadatas s) = length (rows (vectors s))
      \<and> list_all (\<lambda>r. length r = ncols (vectors s)) (rows (vectors s))
      \<and> 0 < ncols (vectors s))"

section \<open>The default sort of \<open>np.argsort\<close>\<close>

text \<open>
  \<open>np.argsort(-sims)\<close> is called without \<open>kind\<close>, so NumPy uses its default kind,
  \<open>quicksort\<close>: an introsort of the index array. NumPy is a library, not part of the
  repository; the definitions of this section follow its source
  (\<open>numpy/_core/src/npysort/quicksort.cpp\<close> and \<open>heapsort.cpp\<close>, the functions
  \<open>aquicksort_\<close> and \<open>aheapsort_\<close>), on the portable path, which is taken wherever no
  vectorised sort is dispatched. Keys are real numbers, compared by \<open><\<close>.
\<close>

text \<open>
  \<open>aquicksort\<close>, from the constant for the longest partition that is insertion sorted.
  \<open>INTP_SWAP(*p, *q)\<close> exchanges two entries of the index array \<open>tosort\<close>, here \<open>t\<close>; the
  keys \<open>v\<close> are never moved. The pointers \<open>pl\<close>, \<open>pr\<close>, \<open>pm\<close>, \<open>pi\<close>, \<open>pj\<close>, \<open>pk\<close> of the
  source are positions in \<open>t\<close> (\<open>pi\<close> and \<open>pj\<close> are written \<open>p_i\<close> and \<open>p_j\<close>).
\<close>

definition SMALL_QUICKSORT :: nat where
  "SMALL_QUICKSORT = 16"

definition intp_swap :: "nat list \<Rightarrow> nat \<Rightarrow> nat \<Rightarrow> nat list" where
  "intp_swap t p q = t[p := t ! q, q := t ! p]"

text \<open>
  The two scans of the partition: \<open>do ++pi; while (v[*pi] < vp)\<close> and
  \<open>do --pj; while (vp < v[*pj])\<close>. In the source nothing bounds them but the keys: the
  pivot, parked at \<open>pr - 1\<close>, stops the first scan and the key at \<open>pl\<close>, not above the pivot,
  stops the second. The bound \<open>hi\<close>, the position of the pivot, and the case \<open>0\<close> make the
  recursions total and are never what stops a scan.
\<close>

function scan_up :: "real list \<Rightarrow> nat list \<Rightarrow> real \<Rightarrow> nat \<Rightarrow> nat \<Rightarrow> nat" where
  "scan_up v t vp hi p_i =
     (if Suc p_i < hi \<and> v ! (t ! Suc p_i) < vp then scan_up v t vp hi (Suc p_i) else Suc p_i)"
  by pat_completeness auto
termination
  by (relation "measure (\<lambda>(v, t, vp, hi, p_i). hi - p_i)") auto

declare scan_up.simps [simp del]

fun scan_down :: "real list \<Rightarrow> nat list \<Rightarrow> real \<Rightarrow> nat \<Rightarrow> nat" where
  "scan_down v t vp 0 = 0"
| "scan_down v t vp (Suc p_j) = (if vp < v ! (t ! p_j) then scan_down v t vp p_j else p_j)"

lemma scan_up_gt: "p_i < scan_up v t vp hi p_i"
  by (induction v t vp hi p_i rule: scan_up.induct) (subst scan_up.simps, auto)

lemma scan_up_le: "p_i < hi \<Longrightarrow> scan_up v t vp hi p_i \<le> hi"
  by (induction v t vp hi p_i rule: scan_up.induct) (subst scan_up.simps, auto)

lemma scan_down_le: "scan_down v t vp p_j \<le> p_j"
  by (induction p_j) auto

text \<open>The loop \<open>for (;;)\<close> of the partition: scan, stop when the scans have met, else exchange.\<close>

function partition_loop ::
  "real list \<Rightarrow> real \<Rightarrow> nat \<Rightarrow> nat list \<Rightarrow> nat \<Rightarrow> nat \<Rightarrow> nat list \<times> nat" where
  "partition_loop v vp hi t p_i p_j =
     (let p_i' = scan_up v t vp hi p_i; p_j' = scan_down v t vp p_j
      in if p_j' \<le> p_i' then (t, p_i') else partition_loop v vp hi (intp_swap t p_i' p_j') p_i' p_j')"
  by pat_completeness auto
termination
proof (relation "measure (\<lambda>(v, vp, hi, t, p_i, p_j). p_j - p_i)")
  show "wf (measure (\<lambda>(v, vp, hi, t, p_i, p_j). p_j - p_i))" by simp
next
  fix v :: "real list" and vp :: real and hi :: nat and t :: "nat list" and p_i p_j p_i' p_j' :: nat
  assume a: "p_i' = scan_up v t vp hi p_i" "p_j' = scan_down v t vp p_j" "\<not> p_j' \<le> p_i'"
  have "p_i < p_i'" using a(1) scan_up_gt by simp
  moreover have "p_j' \<le> p_j" using a(2) scan_down_le by simp
  ultimately show "((v, vp, hi, intp_swap t p_i' p_j', p_i', p_j'), (v, vp, hi, t, p_i, p_j))
      \<in> measure (\<lambda>(v, vp, hi, t, p_i, p_j). p_j - p_i)"
    using a(3) by simp
qed

declare partition_loop.simps [simp del]

text \<open>
  One partition of \<open>pl..pr\<close>: the median of the keys at \<open>pl\<close>, \<open>pm\<close> and \<open>pr\<close> is brought to
  \<open>pm\<close> by up to three exchanges and is the pivot \<open>vp\<close>; it is parked at \<open>pr - 1\<close>, the loop
  runs, and the pivot is put at the position \<open>pi\<close> where the scans met.
\<close>

definition median3 :: "real list \<Rightarrow> nat list \<Rightarrow> nat \<Rightarrow> nat \<Rightarrow> nat \<Rightarrow> nat list" where
  "median3 v t pl pm pr =
     (let t = (if v ! (t ! pm) < v ! (t ! pl) then intp_swap t pm pl else t);
          t = (if v ! (t ! pr) < v ! (t ! pm) then intp_swap t pr pm else t)
      in if v ! (t ! pm) < v ! (t ! pl) then intp_swap t pm pl else t)"

definition partition_step :: "real list \<Rightarrow> nat list \<Rightarrow> nat \<Rightarrow> nat \<Rightarrow> nat list \<times> nat" where
  "partition_step v t pl pr =
     (let pm = pl + (pr - pl) div 2;
          t = median3 v t pl pm pr;
          vp = v ! (t ! pm);
          t = intp_swap t pm (pr - 1);
          (t, p_i) = partition_loop v vp (pr - 1) t pl (pr - 1)
      in (intp_swap t p_i (pr - 1), p_i))"

text \<open>
  The insertion sort of \<open>pl..pr\<close>: the entry at \<open>pi\<close> moves down while its key is less than
  the key below it (\<open>while (pj > pl && vp < v[*pk])\<close>). Equal keys are not passed.
\<close>

fun shift_up :: "real list \<Rightarrow> real \<Rightarrow> nat \<Rightarrow> nat list \<Rightarrow> nat \<Rightarrow> nat list \<times> nat" where
  "shift_up v vp pl t 0 = (t, 0)"
| "shift_up v vp pl t (Suc pk) =
     (if pl < Suc pk \<and> vp < v ! (t ! pk) then shift_up v vp pl (t[Suc pk := t ! pk]) pk
      else (t, Suc pk))"

definition insert_at :: "real list \<Rightarrow> nat \<Rightarrow> nat list \<Rightarrow> nat \<Rightarrow> nat list" where
  "insert_at v pl t p_i =
     (let vi = t ! p_i; vp = v ! vi; (t', p_j) = shift_up v vp pl t p_i in t'[p_j := vi])"

definition insertion_sort :: "real list \<Rightarrow> nat list \<Rightarrow> nat \<Rightarrow> nat \<Rightarrow> nat list" where
  "insertion_sort v t pl pr = foldl (insert_at v pl) t [Suc pl..<Suc pr]"

text \<open>
  \<open>aheapsort\<close> on the \<open>n\<close> entries from position \<open>base\<close>, the fallback of the introsort. The
  source indexes the heap from one (\<open>a = tosort - 1\<close>): \<open>a[j]\<close> is the entry at
  \<open>base + j - 1\<close>. \<open>sift\<close> is the inner loop \<open>for (i = l, j = l << 1; j <= n;)\<close>; \<open>j\<close> is never
  zero there.
\<close>

function sift ::
  "real list \<Rightarrow> nat \<Rightarrow> nat \<Rightarrow> nat \<Rightarrow> nat list \<Rightarrow> nat \<Rightarrow> nat \<Rightarrow> nat list \<times> nat" where
  "sift v base n tmp t i j =
     (if 0 < j \<and> j \<le> n
      then
        let j = (if j < n \<and> v ! (t ! (base + j - 1)) < v ! (t ! (base + j)) then j + 1 else j)
        in if v ! tmp < v ! (t ! (base + j - 1))
           then sift v base n tmp (t[base + i - 1 := t ! (base + j - 1)]) j (j + j)
           else (t, i)
      else (t, i))"
  by pat_completeness auto
termination
  by (relation "measure (\<lambda>(v, base, n, tmp, t, i, j). Suc n - j)") auto

declare sift.simps [simp del]

definition heap_place :: "real list \<Rightarrow> nat \<Rightarrow> nat \<Rightarrow> nat list \<Rightarrow> nat \<Rightarrow> nat \<Rightarrow> nat list" where
  "heap_place v base n t tmp l =
     (let (t', i) = sift v base n tmp t l (l + l) in t'[base + i - 1 := tmp])"

fun heap_extract :: "real list \<Rightarrow> nat \<Rightarrow> nat list \<Rightarrow> nat \<Rightarrow> nat list" where
  "heap_extract v base t 0 = t"
| "heap_extract v base t (Suc m) =
     (if 0 < m
      then
        let tmp = t ! (base + m);
            t = t[base + m := t ! base]
        in heap_extract v base (heap_place v base m t tmp 1) m
      else t)"

definition aheapsort :: "real list \<Rightarrow> nat list \<Rightarrow> nat \<Rightarrow> nat \<Rightarrow> nat list" where
  "aheapsort v t base n =
     (let t = foldl (\<lambda>t l. heap_place v base n t (t ! (base + l - 1)) l) t (rev [1..<Suc (n div 2)])
      in heap_extract v base t n)"

text \<open>The position a partition returns lies strictly between \<open>pl\<close> and \<open>pr\<close>.\<close>

lemma partition_loop_bounds:
  "p_i < hi \<Longrightarrow> p_j \<le> hi \<Longrightarrow>
   p_i < snd (partition_loop v vp hi t p_i p_j) \<and> snd (partition_loop v vp hi t p_i p_j) \<le> hi"
proof (induction v vp hi t p_i p_j rule: partition_loop.induct)
  case (1 v vp hi t p_i p_j)
  let ?pi = "scan_up v t vp hi p_i" and ?pj = "scan_down v t vp p_j"
  have up: "p_i < ?pi" "?pi \<le> hi" using 1(2) scan_up_gt scan_up_le by auto
  have down: "?pj \<le> p_j" by (rule scan_down_le)
  show ?case
  proof (cases "?pj \<le> ?pi")
    case True
    then have "partition_loop v vp hi t p_i p_j = (t, ?pi)"
      by (subst partition_loop.simps) (simp add: Let_def)
    then show ?thesis using up by simp
  next
    case False
    then have b: "?pi < hi" "?pj \<le> hi" using down 1(3) by auto
    have "partition_loop v vp hi t p_i p_j = partition_loop v vp hi (intp_swap t ?pi ?pj) ?pi ?pj"
      using False by (subst partition_loop.simps) (simp add: Let_def)
    then show ?thesis using 1(1) [OF refl refl False b] up by simp
  qed
qed

lemma partition_bounds:
  assumes "(t', p_i) = partition_step v t pl pr" and "1 < pr - pl"
  shows "pl < p_i \<and> p_i < pr"
proof -
  from assms(2) have lt: "pl < pr - 1" and le: "pr - 1 \<le> pr - 1" by auto
  define t0 where "t0 = median3 v t pl (pl + (pr - pl) div 2) pr"
  define vp where "vp = v ! (t0 ! (pl + (pr - pl) div 2))"
  define t1 where "t1 = intp_swap t0 (pl + (pr - pl) div 2) (pr - 1)"
  have "p_i = snd (partition_step v t pl pr)" using assms(1) by (metis snd_conv)
  then have "p_i = snd (partition_loop v vp (pr - 1) t1 pl (pr - 1))"
    by (simp add: partition_step_def Let_def split_def t0_def vp_def t1_def)
  with partition_loop_bounds [OF lt le, of v vp t1]
  have "pl < p_i" and "p_i \<le> pr - 1" by simp_all
  with assms(2) show ?thesis by arith
qed

lemma partition_shrinks:
  assumes "(t', p_i) = partition_step v t pl pr" and "SMALL_QUICKSORT < pr - pl"
  shows "p_i - Suc 0 - pl < pr - pl \<and> pr - Suc p_i < pr - pl"
proof -
  from assms(2) have "1 < pr - pl" by (simp add: SMALL_QUICKSORT_def)
  from partition_bounds [OF assms(1) this] show ?thesis by arith
qed

text \<open>
  The driver. \<open>npy_get_msb\<close> is the position of the highest bit set; the depth budget
  starts at twice that. Each partition lowers the budget by one, pushes the larger part
  on the stack and goes on with the smaller one; a part popped from the stack
  (\<open>popped\<close>) with a negative budget is heap sorted. The parts are disjoint, so the stack
  is the recursion here: the part gone on with first, then the pushed one.
\<close>

fun npy_get_msb :: "nat \<Rightarrow> int" where
  "npy_get_msb n = (if n < 2 then 0 else 1 + npy_get_msb (n div 2))"

declare npy_get_msb.simps [simp del]

function aquicksort_from ::
  "real list \<Rightarrow> bool \<Rightarrow> int \<Rightarrow> nat \<Rightarrow> nat \<Rightarrow> nat list \<Rightarrow> nat list" where
  "aquicksort_from v popped cdepth pl pr t =
     (if popped \<and> cdepth < 0 then aheapsort v t pl (pr - pl + 1)
      else if SMALL_QUICKSORT < pr - pl
      then
        (case partition_step v t pl pr of
           (t', p_i) \<Rightarrow>
             if p_i - pl < pr - p_i
             then aquicksort_from v True (cdepth - 1) (p_i + 1) pr
                    (aquicksort_from v False (cdepth - 1) pl (p_i - 1) t')
             else aquicksort_from v True (cdepth - 1) pl (p_i - 1)
                    (aquicksort_from v False (cdepth - 1) (p_i + 1) pr t'))
      else insertion_sort v t pl pr)"
  by pat_completeness auto
termination
proof (relation "measure (\<lambda>(v, popped, cdepth, pl, pr, t). pr - pl)", goal_cases)
  case 1
  show ?case by simp
next
  case (2 v popped cdepth pl pr t x y)
  then show ?case using partition_shrinks [of x y v t pl pr] by simp
next
  case (3 v popped cdepth pl pr t x y)
  then show ?case using partition_shrinks [of x y v t pl pr] by simp
next
  case (4 v popped cdepth pl pr t x y)
  then show ?case using partition_shrinks [of x y v t pl pr] by simp
next
  case (5 v popped cdepth pl pr t x y)
  then show ?case using partition_shrinks [of x y v t pl pr] by simp
qed

declare aquicksort_from.simps [simp del]

text \<open>\<open>np.argsort(keys)\<close>: the index array starts as \<open>0, 1, ..., n - 1\<close>.\<close>

definition np_argsort :: "real list \<Rightarrow> nat list" where
  "np_argsort keys =
     aquicksort_from keys True (npy_get_msb (length keys) * 2) 0 (length keys - 1) [0..<length keys]"

section \<open>Candidate scorer (\<open>app/ranking/matcher.py\<close>)\<close>

text \<open>The truth value Python gives an optional number: absent and zero are false.\<close>

fun truthy :: "real option \<Rightarrow> bool" where
  "truthy None = False"
| "truthy (Some x) = (x \<noteq> 0)"

definition normalize_similarity :: "real \<Rightarrow> real" where
  "normalize_similarity distance = 1 / (1 + distance)"

definition score_skills :: "string set \<Rightarrow> string \<Rightarrow> real" where
  "score_skills jd_skills resume_text =
     (if jd_skills = {} then 0.5
      else
        let resume_skills = extract_skills resume_text;
            overlap = jd_skills \<inter> resume_skills
        in real (card overlap) / real (card jd_skills))"

definition score_experience :: "real option \<Rightarrow> string \<Rightarrow> real" where
  "score_experience jd_experience resume_text =
     (let resume_experience = estimate_years_of_experience resume_text in
      if truthy jd_experience \<and> truthy resume_experience
      then (case (jd_experience, resume_experience) of
              (Some j, Some r) \<Rightarrow> min (r / j) 1.2 / 1.2
            | _ \<Rightarrow> 0.4)
      else if truthy resume_experience
      then (case resume_experience of Some r \<Rightarrow> min (r / 10) 1.0 | None \<Rightarrow> 0.4)
      else 0.4)"

definition blend_scores :: "real \<Rightarrow> real \<Rightarrow> real \<Rightarrow> real" where
  "blend_scores similarity skills experience =
     0.55 * similarity + 0.25 * skills + 0.2 * experience"

text \<open>
  \<open>round(x, ndigits)\<close> on real numbers: to the nearest multiple of \<open>10 ^ -ndigits\<close>, a tie
  going to the even neighbour.
\<close>

definition round_half_even :: "real \<Rightarrow> int" where
  "round_half_even x =
     (let f = \<lfloor>x\<rfloor>; d = x - of_int f in
      if d < 1 / 2 then f else if 1 / 2 < d then f + 1 else if even f then f else f + 1)"

definition py_round :: "real \<Rightarrow> nat \<Rightarrow> real" where
  "py_round x ndigits = of_int (round_half_even (x * 10 ^ ndigits)) / 10 ^ ndigits"

record candidate_score =
  candidate_name :: string
  file_name :: string
  similarity :: real
  skill_alignment :: real
  experience_score :: real
  match_score :: real
  llm_feedback :: feedback

text \<open>\<open>d.get(k, default)\<close> on a metadata dictionary.\<close>

definition get_or :: "metadata \<Rightarrow> string \<Rightarrow> string \<Rightarrow> string" where
  "get_or d k dflt = (case d k of None \<Rightarrow> dflt | Some v \<Rightarrow> v)"

text \<open>The loop of \<open>evaluate\<close> over the search results; a result whose resume is not found is skipped.\<close>

fun evaluate_loop ::
  "(string \<Rightarrow> py_error + string) \<Rightarrow> vector_store \<Rightarrow> string \<Rightarrow> string set \<Rightarrow> real option
     \<Rightarrow> (metadata \<times> real) list \<Rightarrow> candidate_score list" where
  "evaluate_loop call_ollama s jd_text jd_skills jd_experience [] = []"
| "evaluate_loop call_ollama s jd_text jd_skills jd_experience ((md, score) # rest) =
     (case get_resume_by_id s (md ''candidate_id'') of
        None \<Rightarrow> evaluate_loop call_ollama s jd_text jd_skills jd_experience rest
      | Some resume_entry \<Rightarrow>
          let text = rtext resume_entry;
              cleaned_resume = clean_text text;
              sim = normalize_similarity score;
              skill = score_skills jd_skills text;
              experience = score_experience jd_experience text;
              match = blend_scores sim skill experience;
              fb = analyze_candidate call_ollama (get_or md ''candidate_name'' ''Candidate'')
                     jd_text cleaned_resume
          in \<lparr>candidate_name = get_or md ''candidate_name'' ''Candidate'',
              file_name = get_or md ''file_name'' ''N/A'',
              similarity = py_round (sim * 100) 2,
              skill_alignment = py_round (skill * 100) 2,
              experience_score = py_round (experience * 100) 2,
              match_score = py_round (match * 100) 2,
              llm_feedback = fb\<rparr>
             # evaluate_loop call_ollama s jd_text jd_skills jd_experience rest)"

text \<open>
  \<open>evaluate\<close>: \<open>sorted(..., key=match_score, reverse=True)\<close> is a stable sort, descending.
\<close>

definition evaluate ::
  "(real list \<Rightarrow> real list \<Rightarrow> real) \<Rightarrow> (real list \<Rightarrow> nat list) \<Rightarrow> (string \<Rightarrow> py_error + string)
     \<Rightarrow> vector_store \<Rightarrow> string \<Rightarrow> real list \<Rightarrow> int option \<Rightarrow> py_error + candidate_score list" where
  "evaluate cosine_similarity argsort call_ollama s jd_text jd_vector top_k =
     (case similarity_search_with_scores cosine_similarity argsort s jd_vector top_k of
        Inl exc \<Rightarrow> Inl exc
      | Inr search_results \<Rightarrow>
          let jd_skills = extract_skills jd_text;
              jd_experience = estimate_years_of_experience jd_text;
              evaluations = evaluate_loop call_ollama s jd_text jd_skills jd_experience search_results
          in Inr (sort_key (\<lambda>c. - match_score c) evaluations))"

section \<open>A store for concrete runs\<close>

text \<open>
  Three stored vectors of width two; the first and the third are equal, so a query
  finds them at the same similarity.
\<close>

definition demo_store :: vector_store where
  "demo_store =
     \<lparr>resume_lookup = Map.empty,
      vectors = \<lparr>ncols = 2, rows = [[1, 0], [0, 1], [1, 0]]\<rparr>,
      metadatas = [[''candidate_id'' \<mapsto> ''1''], [''candidate_id'' \<mapsto> ''2''],
                   [''candidate_id'' \<mapsto> ''3'']],
      vectors_file = None,
      meta_file = None\<rparr>"

text \<open>
  Eighteen stored vectors, all equal (the same resume uploaded eighteen times), with the
  identifiers \<open>build_store\<close> gives them.
\<close>

definition ties_store :: vector_store where
  "ties_store =
     \<lparr>resume_lookup = Map.empty,
      vectors = \<lparr>ncols = 2, rows = replicate 18 [1, 0]\<rparr>,
      metadatas = map (\<lambda>i. [''candidate_id'' \<mapsto> str_nat i]) [1..<19],
      vectors_file = None,
      meta_file = None\<rparr>"

text \<open>
  Two resumes, an embedding provider that fails and one that succeeds, a disk that takes
  both writes and one that is full, and the state of a store after a successful build on
  the first resume, files written.
\<close>

definition resume_a :: resume where
  "resume_a = \<lparr>rtext = ''python, 5 years'',
                rmetadata = Some [''candidate_name'' \<mapsto> ''A'', ''file_name'' \<mapsto> ''a.txt'']\<rparr>"

definition resume_b :: resume where
  "resume_b = \<lparr>rtext = ''java, 1 year'',
                rmetadata = Some [''candidate_name'' \<mapsto> ''B'', ''file_name'' \<mapsto> ''b.txt'']\<rparr>"

definition embed_fails :: "string list \<Rightarrow> py_error + ndarray" where
  "embed_fails texts = Inl (RuntimeError ''inference failed'')"

definition embed_unit :: "string list \<Rightarrow> py_error + ndarray" where
  "embed_unit texts = Inr \<lparr>ncols = 2, rows = map (\<lambda>t. [1, 0]) texts\<rparr>"

definition disk_ok :: disk where
  "disk_ok = \<lparr>savez_compressed = Written, json_dump = Written\<rparr>"

definition disk_full :: disk where
  "disk_full = \<lparr>savez_compressed = WriteFailed (OSError ''No space left on device'') None,
                 json_dump = Written\<rparr>"

definition built_store :: vector_store where
  "built_store =
     \<lparr>resume_lookup = [''1'' \<mapsto> resume_a],
      vectors = \<lparr>ncols = 2, rows = [[1, 0]]\<rparr>,
      metadatas = [[''candidate_id'' \<mapsto> ''1'', ''candidate_name'' \<mapsto> ''A'', ''file_name'' \<mapsto> ''a.txt'']],
      vectors_file = Some \<lparr>ncols = 2, rows = [[1, 0]]\<rparr>,
      meta_file = Some [[''candidate_id'' \<mapsto> ''1'', ''candidate_name'' \<mapsto> ''A'', ''file_name'' \<mapsto> ''a.txt'']]\<rparr>"

text \<open>The metadata entry \<open>build_store\<close> makes for the resume at position \<open>idx\<close>.\<close>

definition resume_md :: "nat \<Rightarrow> resume \<Rightarrow> metadata" where
  "resume_md idx r = [''candidate_id'' \<mapsto> str_nat idx]
                       ++ (case rmetadata r of None \<Rightarrow> Map.empty | Some m \<Rightarrow> m)"

text \<open>
  A generation service that refuses the connection, the state of a store after a build on
  the two resumes, a screening run on it, and a resume text of four sentences.
\<close>

definition call_refused :: "string \<Rightarrow> py_error + string" where
  "call_refused prompt = Inl (RequestError ''connection refused'')"

definition screening_store :: vector_store where
  "screening_store =
     \<lparr>resume_lookup = [''1'' \<mapsto> resume_a, ''2'' \<mapsto> resume_b],
      vectors = \<lparr>ncols = 2, rows = [[1, 0], [0, 1]]\<rparr>,
      metadatas = [[''candidate_id'' \<mapsto> ''1'', ''candidate_name'' \<mapsto> ''A'', ''file_name'' \<mapsto> ''a.txt''],
                   [''candidate_id'' \<mapsto> ''2'', ''candidate_name'' \<mapsto> ''B'', ''file_name'' \<mapsto> ''b.txt'']],
      vectors_file = None,
      meta_file = None\<rparr>"

definition screening_run :: "py_error + candidate_score list" where
  "screening_run =
     evaluate cosine argsort_stable call_refused screening_store ''python, 4 years'' [1, 0] None"

definition four_sentences :: string where
  "four_sentences = ''Built APIs. Led a team! Shipped it? Left.''"

section \<open>The line scan of the response parser, in the words of the specification\<close>

text \<open>
  The specification describes \<open>_parse_llm_response\<close> as a scan over the lines that keeps
  three sections. Here that description is written down on its own, apart from the
  dictionary code of the source: a line is a header of the first section whose word it
  contains, tried in the order strengths, weaknesses, reasoning; a header line sets its
  section to the stripped text after the first colon (\<open>after_first_colon\<close>: the whole
  line when it has no colon); another line is appended, after a blank, to the section of
  the last header, if there was one; in the end a section that is empty once stripped
  reads \<open>Not provided.\<close>.
\<close>

datatype heading = Strengths | Weaknesses | Reasoning

definition header_of :: "string \<Rightarrow> heading option" where
  "header_of line =
     (if contains ''strength'' (lower line) then Some Strengths
      else if contains ''weakness'' (lower line) then Some Weaknesses
      else if contains ''reason'' (lower line) then Some Reasoning
      else None)"

fun heading_get :: "heading \<Rightarrow> string \<times> string \<times> string \<Rightarrow> string" where
  "heading_get Strengths (s, w, r) = s"
| "heading_get Weaknesses (s, w, r) = w"
| "heading_get Reasoning (s, w, r) = r"

fun heading_put :: "heading \<Rightarrow> string \<Rightarrow> string \<times> string \<times> string \<Rightarrow> string \<times> string \<times> string" where
  "heading_put Strengths v (s, w, r) = (v, w, r)"
| "heading_put Weaknesses v (s, w, r) = (s, v, r)"
| "heading_put Reasoning v (s, w, r) = (s, w, v)"

fun line_scan ::
  "heading option \<Rightarrow> string \<times> string \<times> string \<Rightarrow> string list \<Rightarrow> string \<times> string \<times> string" where
  "line_scan cur secs [] = secs"
| "line_scan cur secs (line # rest) =
     (case header_of line of
        Some h \<Rightarrow> line_scan (Some h) (heading_put h (strip (after_first_colon line)) secs) rest
      | None \<Rightarrow>
          (case cur of
             Some k \<Rightarrow> line_scan cur (heading_put k (heading_get k secs @ '' '' @ strip line) secs) rest
           | None \<Rightarrow> line_scan cur secs rest))"

definition or_not_provided :: "string \<Rightarrow> string" where
  "or_not_provided v = (if strip v \<noteq> [] then strip v else ''Not provided.'')"

text \<open>The key of a section, and the three sections as the dictionary of the source.\<close>

definition heading_key :: "heading \<Rightarrow> string" where
  "heading_key h =
     (case h of Strengths \<Rightarrow> ''strengths'' | Weaknesses \<Rightarrow> ''weaknesses'' | Reasoning \<Rightarrow> ''reasoning'')"

definition as_dict :: "string \<times> string \<times> string \<Rightarrow> feedback" where
  "as_dict secs = (case secs of (s, w, r) \<Rightarrow> [(''strengths'', s), (''weaknesses'', w), (''reasoning'', r)])"

section \<open>Properties of the text normalizer\<close>

text \<open>
  A string is whitespace-normal when its only whitespace characters are blanks and no
  blank is followed by another whitespace character.
\<close>

fun ws_normal :: "string \<Rightarrow> bool" where
  "ws_normal [] = True"
| "ws_normal (c # cs) =
     ((is_space c \<longrightarrow> c = CHR '' '' \<and> (cs = [] \<or> \<not> is_space (hd cs))) \<and> ws_normal cs)"

lemma dropWhile_space_head:
  "dropWhile is_space cs = [] \<or> \<not> is_space (hd (dropWhile is_space cs))"
  by (metis hd_dropWhile)

lemma hd_sub_ws:
  "cs \<noteq> [] \<Longrightarrow> \<not> is_space (hd cs) \<Longrightarrow> sub_ws cs \<noteq> [] \<and> hd (sub_ws cs) = hd cs"
  by (cases cs) auto

lemma sub_ws_Nil_iff: "sub_ws cs = [] \<longleftrightarrow> cs = []"
  by (cases cs) auto

lemma ws_normal_sub_ws: "ws_normal (sub_ws t)"
proof (induction t rule: sub_ws.induct)
  case 1
  show ?case by simp
next
  case (2 c cs)
  show ?case
  proof (cases "is_space c")
    case True
    let ?r = "dropWhile is_space cs"
    have tl_ok: "ws_normal (sub_ws ?r)" using 2(1) True by simp
    have "sub_ws ?r = [] \<or> \<not> is_space (hd (sub_ws ?r))"
    proof (cases "?r = []")
      case True
      then have "sub_ws ?r = sub_ws []" by (rule arg_cong)
      then show ?thesis by (simp only: sub_ws.simps simp_thms)
    next
      case False
      with dropWhile_space_head [of cs] have "\<not> is_space (hd ?r)" by blast
      with False hd_sub_ws [of ?r] have "hd (sub_ws ?r) = hd ?r" by blast
      with \<open>\<not> is_space (hd ?r)\<close> show ?thesis by (simp only: simp_thms)
    qed
    with tl_ok True show ?thesis by simp
  next
    case False
    with 2(2) show ?thesis by simp
  qed
qed

lemma sub_ws_normal: "ws_normal s \<Longrightarrow> sub_ws s = s"
proof (induction s)
  case Nil
  show ?case by simp
next
  case (Cons c cs)
  then have rest: "sub_ws cs = cs" by simp
  show ?case
  proof (cases "is_space c")
    case True
    with Cons.prems have c: "c = CHR '' ''" and nxt: "cs = [] \<or> \<not> is_space (hd cs)"
      by simp_all
    from nxt have "dropWhile is_space cs = cs" by (cases cs) auto
    with True c rest show ?thesis by simp
  next
    case False
    with rest show ?thesis by simp
  qed
qed

lemma ws_normal_append: "ws_normal (xs @ ys) \<Longrightarrow> ws_normal xs \<and> ws_normal ys"
proof (induction xs)
  case Nil
  then show ?case by simp
next
  case (Cons x xs)
  then show ?case by (cases xs) auto
qed

lemma ws_normal_lstrip: "ws_normal s \<Longrightarrow> ws_normal (lstrip s)"
  unfolding lstrip_def
  by (metis takeWhile_dropWhile_id ws_normal_append)

lemma rstrip_prefix: "\<exists>zs. s = rstrip s @ zs"
proof -
  have "rev s = takeWhile is_space (rev s) @ dropWhile is_space (rev s)" by simp
  then have "s = rev (dropWhile is_space (rev s)) @ rev (takeWhile is_space (rev s))"
    by (metis rev_append rev_rev_ident)
  then show ?thesis unfolding rstrip_def by blast
qed

lemma ws_normal_rstrip: "ws_normal s \<Longrightarrow> ws_normal (rstrip s)"
  by (metis rstrip_prefix ws_normal_append)

lemma ws_normal_strip: "ws_normal s \<Longrightarrow> ws_normal (strip s)"
  by (simp add: strip_def ws_normal_lstrip ws_normal_rstrip)

lemma rstrip_idem: "rstrip (rstrip s) = rstrip s"
  by (simp add: rstrip_def)

lemma rstrip_Cons_nonspace:
  assumes "\<not> is_space x"
  shows "\<exists>ys. rstrip (x # xs) = x # ys"
proof (cases "\<forall>y\<in>set (rev xs). is_space y")
  case True
  with assms have "rstrip (x # xs) = [x]"
    by (simp add: rstrip_def dropWhile_append)
  then show ?thesis by simp
next
  case False
  with assms have "rstrip (x # xs) = x # rev (dropWhile is_space (rev xs))"
    by (simp add: rstrip_def dropWhile_append)
  then show ?thesis by blast
qed

lemma lstrip_rstrip_lstrip: "lstrip (rstrip (lstrip s)) = rstrip (lstrip s)"
proof (cases "lstrip s")
  case Nil
  have "rstrip [] = []" by (simp add: rstrip_def)
  moreover have "lstrip [] = []" by (simp add: lstrip_def)
  ultimately show ?thesis using Nil by simp
next
  case (Cons x xs)
  then have "\<not> is_space x"
    unfolding lstrip_def by (metis hd_dropWhile list.distinct(1) list.sel(1))
  then obtain ys where "rstrip (x # xs) = x # ys"
    using rstrip_Cons_nonspace by blast
  with Cons \<open>\<not> is_space x\<close> show ?thesis by (simp add: lstrip_def)
qed

lemma strip_idem: "strip (strip s) = strip s"
  by (simp add: strip_def lstrip_rstrip_lstrip rstrip_idem)

text \<open>
  Claim C9. \<open>clean_text\<close> is idempotent: cleaning a cleaned text changes nothing. The
  first pass leaves single blanks as the only whitespace and no whitespace at either end,
  so the second pass finds no run to collapse and nothing to trim.
\<close>

theorem clean_text_idempotent: "clean_text (clean_text t) = clean_text t"
proof -
  have "ws_normal (clean_text t)"
    unfolding clean_text_def by (rule ws_normal_strip [OF ws_normal_sub_ws])
  then have "sub_ws (clean_text t) = clean_text t" by (rule sub_ws_normal)
  then have "clean_text (clean_text t) = strip (clean_text t)"
    by (simp add: clean_text_def)
  also have "\<dots> = clean_text t"
    unfolding clean_text_def by (rule strip_idem)
  finally show ?thesis .
qed

section \<open>Properties of the similarity search\<close>

lemma collect_results_error: "collect_results mds sims order = Inl exc \<Longrightarrow> exc = IndexError"
  by (induction order arbitrary: exc) (auto split: if_splits sum.splits)

lemma collect_results_in_range:
  "\<forall>i\<in>set order. i < length mds \<and> i < length sims \<Longrightarrow>
   collect_results mds sims order = Inr (map (\<lambda>i. (mds ! i, 1 - sims ! i)) order)"
  by (induction order) auto

lemma argsort_stable_ok: "argsort_ok argsort_stable"
  unfolding argsort_ok_def argsort_stable_def
  by (auto simp: sorted_sort_key)

lemma np_size_zero_iff: "0 < ncols a \<Longrightarrow> np_size a = 0 \<longleftrightarrow> rows a = []"
  by (simp add: np_size_def)

lemma search_unlimited:
  assumes ok: "argsort_ok argsort" and st: "store_ok s" and ne: "rows (vectors s) \<noteq> []"
    and q: "length query_vector = ncols (vectors s)"
    and k: "k = None \<or> k = Some 0"
  shows "similarity_search_with_scores cosine_similarity argsort s query_vector k =
           Inr (map (\<lambda>i. (metadatas s ! i, 1 - cosine_similarity query_vector (rows (vectors s) ! i)))
                  (argsort (map (\<lambda>v. - cosine_similarity query_vector v) (rows (vectors s)))))"
proof -
  let ?sims = "map (cosine_similarity query_vector) (rows (vectors s))"
  let ?order = "argsort (map uminus ?sims)"
  have keys: "map uminus ?sims = map (\<lambda>v. - cosine_similarity query_vector v) (rows (vectors s))"
    by simp
  from ok have "set ?order = {0..<length (map uminus ?sims)}"
    unfolding argsort_ok_def by blast
  then have rng: "\<forall>i\<in>set ?order. i < length (metadatas s) \<and> i < length ?sims"
    using st by (simp add: store_ok_def)
  have sz: "np_size (vectors s) \<noteq> 0"
    using st ne by (simp add: store_ok_def np_size_def)
  have "similarity_search_with_scores cosine_similarity argsort s query_vector k
          = collect_results (metadatas s) ?sims ?order"
    using sz q k by (auto simp: similarity_search_with_scores_def Let_def)
  also have "\<dots> = Inr (map (\<lambda>i. (metadatas s ! i, 1 - ?sims ! i)) ?order)"
    by (rule collect_results_in_range [OF rng])
  also have "map (\<lambda>i. (metadatas s ! i, 1 - ?sims ! i)) ?order
      = map (\<lambda>i. (metadatas s ! i, 1 - cosine_similarity query_vector (rows (vectors s) ! i))) ?order"
    using rng by (intro map_cong) auto
  finally show ?thesis unfolding keys .
qed

lemma demo_store_ok: "store_ok demo_store"
  by (simp add: store_ok_def demo_store_def)

lemma upt3: "[0..<3] = [0, Suc 0, 2]"
  by (simp add: upt_rec)

lemma demo_sims:
  "map (cosine [1, 0]) (rows (vectors demo_store)) = [1, 0, 1]"
  by (simp add: demo_store_def cosine_def dot_def norm_or_one_def)

lemma demo_search_stable:
  "similarity_search_with_scores cosine argsort_stable demo_store [1, 0] None =
     Inr [([''candidate_id'' \<mapsto> ''1''], 0), ([''candidate_id'' \<mapsto> ''3''], 0), ([''candidate_id'' \<mapsto> ''2''], 1)]"
  unfolding similarity_search_with_scores_def Let_def demo_sims
  by (simp add: demo_store_def np_size_def argsort_stable_def upt3)

lemma argsort_length:
  assumes "argsort_ok argsort"
  shows "length (argsort keys) = length keys"
proof -
  from assms have d: "distinct (argsort keys)" and s: "set (argsort keys) = {0..<length keys}"
    unfolding argsort_ok_def by blast+
  from d have "length (argsort keys) = card (set (argsort keys))"
    by (simp add: distinct_card)
  with s show ?thesis by simp
qed

lemma sorted_shift: "sorted xs \<Longrightarrow> sorted (map (\<lambda>x::real. 1 + x) xs)"
  by (induction xs) auto

text \<open>
  Claim C1, as the code has it. On a store that holds at least one vector, for a query of
  the store's width and for every \<open>argsort\<close> within NumPy's contract, the search without
  \<open>k\<close> returns one pair per stored vector: the pairs are the metadata and the distance
  \<open>1 - cosine_similarity(query, vector)\<close> of the stored vectors, taken along a permutation
  of their indices, and the distances ascend. The order among equal distances is left to
  \<open>argsort\<close>.
\<close>

theorem search_sorted_by_distance:
  assumes "argsort_ok argsort" and "store_ok s" and "rows (vectors s) \<noteq> []"
    and "length query_vector = ncols (vectors s)"
  shows "\<exists>order.
           similarity_search_with_scores cosine_similarity argsort s query_vector None =
             Inr (map (\<lambda>i. (metadatas s ! i, 1 - cosine_similarity query_vector (rows (vectors s) ! i))) order)
           \<and> distinct order \<and> set order = {0..<length (rows (vectors s))}
           \<and> sorted (map (\<lambda>i. 1 - cosine_similarity query_vector (rows (vectors s) ! i)) order)"
proof -
  let ?keys = "map (\<lambda>v. - cosine_similarity query_vector v) (rows (vectors s))"
  let ?order = "argsort ?keys"
  have res: "similarity_search_with_scores cosine_similarity argsort s query_vector None =
      Inr (map (\<lambda>i. (metadatas s ! i, 1 - cosine_similarity query_vector (rows (vectors s) ! i))) ?order)"
    using assms by (intro search_unlimited) simp_all
  from assms(1) have d: "distinct ?order" and st: "set ?order = {0..<length ?keys}"
    and so: "sorted (map (\<lambda>i. ?keys ! i) ?order)"
    unfolding argsort_ok_def by blast+
  from st have st': "set ?order = {0..<length (rows (vectors s))}" by simp
  have eq: "map (\<lambda>i. 1 - cosine_similarity query_vector (rows (vectors s) ! i)) ?order
          = map (\<lambda>i. 1 + ?keys ! i) ?order"
  proof (rule map_cong [OF refl])
    fix i assume "i \<in> set ?order"
    with st' have "i < length (rows (vectors s))" by simp
    then show "1 - cosine_similarity query_vector (rows (vectors s) ! i) = 1 + ?keys ! i"
      by simp
  qed
  have "sorted (map (\<lambda>x::real. 1 + x) (map (\<lambda>i. ?keys ! i) ?order))"
    using so by (rule sorted_shift)
  then have "sorted (map (\<lambda>i. 1 + ?keys ! i) ?order)"
    by (simp only: map_map comp_def)
  with eq have "sorted (map (\<lambda>i. 1 - cosine_similarity query_vector (rows (vectors s) ! i)) ?order)"
    by (simp only:)
  with res d st' show ?thesis by blast
qed

text \<open>The theorem at the store for concrete runs, with a stable \<open>argsort\<close>.\<close>

theorem search_sorted_by_distance_witness:
  "argsort_ok argsort_stable \<and> store_ok demo_store \<and> rows (vectors demo_store) \<noteq> []
   \<and> length [1, 0 :: real] = ncols (vectors demo_store)
   \<and> (\<exists>order.
         similarity_search_with_scores cosine argsort_stable demo_store [1, 0] None =
           Inr (map (\<lambda>i. (metadatas demo_store ! i, 1 - cosine [1, 0] (rows (vectors demo_store) ! i))) order)
         \<and> distinct order \<and> set order = {0..<length (rows (vectors demo_store))}
         \<and> sorted (map (\<lambda>i. 1 - cosine [1, 0] (rows (vectors demo_store) ! i)) order))"
proof -
  have ne: "rows (vectors demo_store) \<noteq> []" by (simp add: demo_store_def)
  have len: "length [1, 0 :: real] = ncols (vectors demo_store)" by (simp add: demo_store_def)
  show ?thesis
    using search_sorted_by_distance [OF argsort_stable_ok demo_store_ok ne len, of cosine]
      argsort_stable_ok demo_store_ok ne len
    by blast
qed

lemma ties_sims: "map (cosine [1, 0]) (rows (vectors ties_store)) = replicate 18 1"
  by (simp add: ties_store_def cosine_def dot_def norm_or_one_def)

lemma ties_order:
  "np_argsort (map uminus (replicate 18 (1::real))) =
     [0, 15, 14, 13, 12, 11, 10, 9, 8, 7, 6, 5, 4, 3, 2, 1, 16, 17]"
  by code_simp

lemma np_argsort_small: "np_argsort [-1, -0, -1] = [0, 2, 1]"
  by code_simp

lemma str_nat_2_16: "str_nat (Suc (Suc 0)) = ''2'' \<and> str_nat 16 = ''16''"
  by code_simp

lemma ties_search:
  "similarity_search_with_scores cosine np_argsort ties_store [1, 0] None =
     Inr (map (\<lambda>i. (metadatas ties_store ! i, 1 - replicate 18 (1::real) ! i))
            [0, 15, 14, 13, 12, 11, 10, 9, 8, 7, 6, 5, 4, 3, 2, 1, 16, 17])"
proof -
  have sz: "np_size (vectors ties_store) \<noteq> 0" and q: "length [1, 0 :: real] = ncols (vectors ties_store)"
    by (simp_all add: ties_store_def np_size_def)
  have "similarity_search_with_scores cosine np_argsort ties_store [1, 0] None =
      collect_results (metadatas ties_store) (replicate 18 1)
        [0, 15, 14, 13, 12, 11, 10, 9, 8, 7, 6, 5, 4, 3, 2, 1, 16, 17]"
    using sz q unfolding similarity_search_with_scores_def Let_def ties_sims ties_order
    by simp
  also have "\<dots> = Inr (map (\<lambda>i. (metadatas ties_store ! i, 1 - replicate 18 (1::real) ! i))
            [0, 15, 14, 13, 12, 11, 10, 9, 8, 7, 6, 5, 4, 3, 2, 1, 16, 17])"
    by (rule collect_results_in_range) (simp add: ties_store_def)
  finally show ?thesis .
qed

text \<open>
  The claim's last part asks for insertion order among equal similarities. The code
  sorts with NumPy's default kind, which is not stable. On a store of eighteen equal
  vectors every candidate has the same similarity to the query; the first partition of
  the quicksort exchanges the entries it scans from both ends, and the search lists
  candidate 16 second and candidate 2 sixteenth, though candidate 2 was inserted first.
\<close>

theorem search_ties_counterexample:
  "similarity_search_with_scores cosine np_argsort ties_store [1, 0] None =
     Inr [(metadatas ties_store ! 0, 0), (metadatas ties_store ! 15, 0), (metadatas ties_store ! 14, 0),
          (metadatas ties_store ! 13, 0), (metadatas ties_store ! 12, 0), (metadatas ties_store ! 11, 0),
          (metadatas ties_store ! 10, 0), (metadatas ties_store ! 9, 0), (metadatas ties_store ! 8, 0),
          (metadatas ties_store ! 7, 0), (metadatas ties_store ! 6, 0), (metadatas ties_store ! 5, 0),
          (metadatas ties_store ! 4, 0), (metadatas ties_store ! 3, 0), (metadatas ties_store ! 2, 0),
          (metadatas ties_store ! 1, 0), (metadatas ties_store ! 16, 0), (metadatas ties_store ! 17, 0)]
   \<and> (metadatas ties_store ! 15) ''candidate_id'' = Some ''16''
   \<and> (metadatas ties_store ! 1) ''candidate_id'' = Some ''2''
   \<and> cosine [1, 0] (rows (vectors ties_store) ! 15) = cosine [1, 0] (rows (vectors ties_store) ! 1)"
proof -
  have "(metadatas ties_store ! 15) ''candidate_id'' = Some ''16''"
    and "(metadatas ties_store ! 1) ''candidate_id'' = Some ''2''"
    using str_nat_2_16 by (simp_all add: ties_store_def)
  moreover have "cosine [1, 0] (rows (vectors ties_store) ! 15) = cosine [1, 0] (rows (vectors ties_store) ! 1)"
    by (simp add: ties_store_def)
  ultimately show ?thesis by (simp add: ties_search)
qed

text \<open>
  Claim C5. For an array of positive width, the search raises the error
  "Vector store is not initialized." exactly when the store holds no vector, whatever
  the query and \<open>k\<close> are.
\<close>

theorem not_initialized_iff_empty:
  assumes "0 < ncols (vectors s)"
  shows "similarity_search_with_scores cosine_similarity argsort s query_vector k = Inl not_initialized
           \<longleftrightarrow> rows (vectors s) = []"
proof
  assume err: "similarity_search_with_scores cosine_similarity argsort s query_vector k = Inl not_initialized"
  show "rows (vectors s) = []"
  proof (rule ccontr)
    assume "rows (vectors s) \<noteq> []"
    with assms have sz: "np_size (vectors s) \<noteq> 0" by (simp add: np_size_def)
    show False
    proof (cases "length query_vector = ncols (vectors s)")
      case False
      with sz err show False
        by (simp add: similarity_search_with_scores_def not_initialized_def)
    next
      case True
      with sz err obtain order sims where
        "collect_results (metadatas s) sims order = Inl not_initialized"
        by (auto simp: similarity_search_with_scores_def Let_def)
      then have "not_initialized = IndexError" by (rule collect_results_error)
      then show False by (simp add: not_initialized_def)
    qed
  qed
next
  assume "rows (vectors s) = []"
  then show "similarity_search_with_scores cosine_similarity argsort s query_vector k = Inl not_initialized"
    by (simp add: similarity_search_with_scores_def np_size_def)
qed

text \<open>The theorem at the empty store, which raises, and at a store of three vectors, which does not.\<close>

theorem not_initialized_iff_empty_witness:
  "similarity_search_with_scores cosine argsort_stable
     (demo_store\<lparr>vectors := np_zeros 0 384, metadatas := []\<rparr>) [1, 0] None = Inl not_initialized
   \<and> similarity_search_with_scores cosine argsort_stable demo_store [1, 0] None \<noteq> Inl not_initialized"
  using not_initialized_iff_empty [of "demo_store\<lparr>vectors := np_zeros 0 384, metadatas := []\<rparr>"
          cosine argsort_stable "[1, 0]" None]
    not_initialized_iff_empty [of demo_store cosine argsort_stable "[1, 0]" None]
  by (simp add: demo_store_def np_zeros_def)

text \<open>
  Claim C10. On a store that holds at least one vector, \<open>k = 0\<close> gives what no \<open>k\<close> gives:
  the full list, one pair per stored vector.
\<close>

theorem k_zero_is_no_limit:
  assumes "argsort_ok argsort" and "store_ok s" and "rows (vectors s) \<noteq> []"
    and "length query_vector = ncols (vectors s)"
  shows "similarity_search_with_scores cosine_similarity argsort s query_vector (Some 0) =
           similarity_search_with_scores cosine_similarity argsort s query_vector None
         \<and> (\<exists>results.
               similarity_search_with_scores cosine_similarity argsort s query_vector (Some 0) = Inr results
               \<and> length results = length (rows (vectors s)))"
proof -
  let ?order = "argsort (map (\<lambda>v. - cosine_similarity query_vector v) (rows (vectors s)))"
  let ?res = "map (\<lambda>i. (metadatas s ! i, 1 - cosine_similarity query_vector (rows (vectors s) ! i))) ?order"
  have z: "similarity_search_with_scores cosine_similarity argsort s query_vector (Some 0) = Inr ?res"
    using assms by (intro search_unlimited) simp_all
  have n: "similarity_search_with_scores cosine_similarity argsort s query_vector None = Inr ?res"
    using assms by (intro search_unlimited) simp_all
  have "length ?res = length (rows (vectors s))"
    using argsort_length [OF assms(1)] by simp
  with z n show ?thesis by simp
qed

text \<open>The theorem at the store for concrete runs.\<close>

theorem k_zero_is_no_limit_witness:
  "similarity_search_with_scores cosine argsort_stable demo_store [1, 0] (Some 0) =
     similarity_search_with_scores cosine argsort_stable demo_store [1, 0] None
   \<and> (\<exists>results.
         similarity_search_with_scores cosine argsort_stable demo_store [1, 0] (Some 0) = Inr results
         \<and> length results = length (rows (vectors demo_store)))"
proof -
  have ne: "rows (vectors demo_store) \<noteq> []" by (simp add: demo_store_def)
  have len: "length [1, 0 :: real] = ncols (vectors demo_store)" by (simp add: demo_store_def)
  show ?thesis
    by (rule k_zero_is_no_limit [OF argsort_stable_ok demo_store_ok ne len])
qed

section \<open>Properties of the store build\<close>

lemma build_loop_result:
  "build_loop idx rs (texts, mds, lookup) =
     (texts @ map rtext rs,
      mds @ map (\<lambda>(i, r). resume_md i r) (zip [idx..<idx + length rs] rs),
      lookup ++ map_of (rev (zip (map str_nat [idx..<idx + length rs]) rs)))"
proof (induction rs arbitrary: idx texts mds lookup)
  case Nil
  show ?case by simp
next
  case (Cons r rs)
  let ?Z = "zip (map str_nat [Suc idx..<Suc idx + length rs]) rs"
  have upt: "[idx..<idx + length (r # rs)] = idx # [Suc idx..<Suc idx + length rs]"
    by (simp add: upt_rec)
  have step: "build_loop idx (r # rs) (texts, mds, lookup) =
      build_loop (Suc idx) rs (texts @ [rtext r], mds @ [resume_md idx r], lookup(str_nat idx \<mapsto> r))"
    by (simp add: Let_def resume_md_def)
  have third: "lookup(str_nat idx \<mapsto> r) ++ map_of (rev ?Z)
                 = lookup ++ map_of (rev ((str_nat idx, r) # ?Z))"
    by (rule ext) (simp add: map_add_def split: option.splits)
  have "build_loop idx (r # rs) (texts, mds, lookup) =
     ((texts @ [rtext r]) @ map rtext rs,
      (mds @ [resume_md idx r]) @ map (\<lambda>(i, r). resume_md i r) (zip [Suc idx..<Suc idx + length rs] rs),
      lookup(str_nat idx \<mapsto> r) ++ map_of (rev ?Z))"
    unfolding step by (rule Cons.IH)
  also have "\<dots> =
     (texts @ map rtext (r # rs),
      mds @ map (\<lambda>(i, r). resume_md i r) (zip (idx # [Suc idx..<Suc idx + length rs]) (r # rs)),
      lookup ++ map_of (rev ((str_nat idx, r) # ?Z)))"
    unfolding third by simp
  finally show ?case unfolding upt by simp
qed

lemma str_nat_1: "str_nat (Suc 0) = ''1''"
  by code_simp

lemma build_fail_demo:
  "build_store embed_fails disk_ok built_store [resume_b] =
     (Some (RuntimeError ''inference failed''), built_store\<lparr>resume_lookup := [''1'' \<mapsto> resume_b]\<rparr>)"
  by (simp add: build_store_def embed_fails_def Let_def str_nat_1)

lemma build_empty:
  "build_store embed_documents d s [] =
     (None, s\<lparr>resume_lookup := Map.empty, vectors := np_zeros 0 384, metadatas := []\<rparr>)"
  by (simp add: build_store_def Let_def)

lemma persist_memory:
  "resume_lookup (snd (persist d s)) = resume_lookup s
   \<and> vectors (snd (persist d s)) = vectors s
   \<and> metadatas (snd (persist d s)) = metadatas s"
  by (simp add: persist_def split: write_outcome.splits)

lemma build_ok:
  assumes "resumes \<noteq> []" and "embed_documents (map rtext resumes) = Inr embeddings"
  shows "build_store embed_documents d s resumes =
     persist d
       (s\<lparr>resume_lookup := map_of (rev (zip (map str_nat [1..<Suc (length resumes)]) resumes)),
          vectors := embeddings,
          metadatas := map (\<lambda>(i, r). resume_md i r) (zip [1..<Suc (length resumes)] resumes)\<rparr>)"
  using assms
  by (simp add: build_store_def build_loop_result Let_def)

text \<open>
  Claim C4, as the code has it. When the batch is empty or the embedding step succeeds,
  \<open>build_store\<close> leaves all three structures made from the new batch alone, whether the
  file writes that follow succeed or raise: the lookup maps the identifiers \<open>"1"\<close>, \<open>"2"\<close>,
  ... to the resumes, the metadata list has one entry per resume in input order, and the
  array is the embedding of the batch (the empty placeholder for an empty batch). Nothing
  of the old state is left in them.
\<close>

theorem build_store_replaces_all:
  assumes "resumes \<noteq> [] \<Longrightarrow> embed_documents (map rtext resumes) = Inr embeddings"
  shows "resume_lookup (snd (build_store embed_documents d s resumes)) =
         map_of (rev (zip (map str_nat [1..<Suc (length resumes)]) resumes))
     \<and> metadatas (snd (build_store embed_documents d s resumes)) =
         map (\<lambda>(i, r). resume_md i r) (zip [1..<Suc (length resumes)] resumes)
     \<and> vectors (snd (build_store embed_documents d s resumes)) =
         (if resumes = [] then np_zeros 0 384 else embeddings)"
proof (cases "resumes = []")
  case True
  then show ?thesis by (simp add: build_empty)
next
  case False
  with assms have e: "embed_documents (map rtext resumes) = Inr embeddings" by simp
  show ?thesis
    using build_ok [of resumes embed_documents embeddings d s] False e
    by (simp add: persist_memory)
qed

text \<open>
  The theorem at a batch of two resumes, built over a store that held one, on a disk that
  is full: the call raises from \<open>_persist\<close>, and the three structures are the new ones.
\<close>

theorem build_store_replaces_all_witness:
  "fst (build_store embed_unit disk_full built_store [resume_b, resume_a]) =
       Some (OSError ''No space left on device'')
   \<and> resume_lookup (snd (build_store embed_unit disk_full built_store [resume_b, resume_a])) =
       map_of (rev (zip (map str_nat [1..<Suc (length [resume_b, resume_a])]) [resume_b, resume_a]))
   \<and> metadatas (snd (build_store embed_unit disk_full built_store [resume_b, resume_a])) =
       map (\<lambda>(i, r). resume_md i r) (zip [1..<Suc (length [resume_b, resume_a])] [resume_b, resume_a])
   \<and> vectors (snd (build_store embed_unit disk_full built_store [resume_b, resume_a])) =
       \<lparr>ncols = 2, rows = [[1, 0], [1, 0]]\<rparr>"
proof -
  have e: "embed_unit (map rtext [resume_b, resume_a]) = Inr \<lparr>ncols = 2, rows = [[1, 0], [1, 0]]\<rparr>"
    by (simp add: embed_unit_def)
  have r: "fst (build_store embed_unit disk_full built_store [resume_b, resume_a]) =
      Some (OSError ''No space left on device'')"
    using build_ok [of "[resume_b, resume_a]" embed_unit
        "\<lparr>ncols = 2, rows = [[1, 0], [1, 0]]\<rparr>" disk_full built_store] e
    by (simp add: persist_def disk_full_def)
  show ?thesis
    using build_store_replaces_all [of "[resume_b, resume_a]" embed_unit
        "\<lparr>ncols = 2, rows = [[1, 0], [1, 0]]\<rparr>" disk_full built_store] e r
    by simp
qed

text \<open>
  The claim also covers a call whose embedding step fails. There the lookup has been
  replaced before the step is tried: after the call the identifier \<open>"1"\<close> leads to the new
  resume B, while the array and the metadata list still are the old ones, of resume A.
\<close>

theorem build_store_failure_counterexample:
  "fst (build_store embed_fails disk_ok built_store [resume_b]) = Some (RuntimeError ''inference failed'')
   \<and> resume_lookup (snd (build_store embed_fails disk_ok built_store [resume_b])) ''1'' = Some resume_b
   \<and> resume_lookup built_store ''1'' = Some resume_a
   \<and> resume_a \<noteq> resume_b
   \<and> vectors (snd (build_store embed_fails disk_ok built_store [resume_b])) = vectors built_store
   \<and> metadatas (snd (build_store embed_fails disk_ok built_store [resume_b])) = metadatas built_store
   \<and> (metadatas built_store ! 0) ''candidate_name'' = Some ''A''"
  by (simp add: build_fail_demo) (simp add: built_store_def resume_a_def resume_b_def)

text \<open>
  Claim C8 at an empty batch. The call empties the array and the metadata list in
  memory and returns before \<open>_persist\<close>: both files still hold what the build before
  wrote, so they do not reflect the new state.
\<close>

theorem build_store_empty_keeps_files:
  "build_store embed_unit disk_ok built_store [] =
     (None, built_store\<lparr>resume_lookup := Map.empty, vectors := np_zeros 0 384, metadatas := []\<rparr>)
   \<and> vectors (snd (build_store embed_unit disk_ok built_store [])) = \<lparr>ncols = 384, rows = []\<rparr>
   \<and> metadatas (snd (build_store embed_unit disk_ok built_store [])) = []
   \<and> vectors_file (snd (build_store embed_unit disk_ok built_store [])) = Some \<lparr>ncols = 2, rows = [[1, 0]]\<rparr>
   \<and> meta_file (snd (build_store embed_unit disk_ok built_store [])) = meta_file built_store
   \<and> meta_file built_store \<noteq> Some []"
  by (simp add: build_empty) (simp add: built_store_def np_zeros_def)

section \<open>Properties of the scores\<close>

lemma est_5: "estimate_years_of_experience ''python, 5 years'' = Some 5"
  by code_simp

lemma est_4: "estimate_years_of_experience ''python, 4 years'' = Some 4"
  by code_simp

lemma est_0: "estimate_years_of_experience ''0 years'' = Some 0"
  by code_simp

lemma est_none: "estimate_years_of_experience ''java, 1 year'' = None"
  by code_simp

text \<open>
  Claim C3, as the code has it. The tests of \<open>_score_experience\<close> are truth tests, and an
  estimate of zero years is false like an absent one. So the score is
  \<open>min(resume / jd, 1.2) / 1.2\<close> when both estimates are present and not zero,
  \<open>min(resume / 10, 1.0)\<close> when the resume estimate is present and not zero and the
  estimate of the job description is absent or zero, and \<open>0.4\<close> when the resume
  estimate is absent or zero.
\<close>

theorem score_experience_cases:
  "(estimate_years_of_experience jd_text = Some j \<and> estimate_years_of_experience resume_text = Some r
      \<and> j \<noteq> 0 \<and> r \<noteq> 0
      \<longrightarrow> score_experience (estimate_years_of_experience jd_text) resume_text = min (r / j) 1.2 / 1.2)
   \<and> ((estimate_years_of_experience jd_text = None \<or> estimate_years_of_experience jd_text = Some 0)
      \<and> estimate_years_of_experience resume_text = Some r \<and> r \<noteq> 0
      \<longrightarrow> score_experience (estimate_years_of_experience jd_text) resume_text = min (r / 10) 1.0)
   \<and> (estimate_years_of_experience resume_text = None \<or> estimate_years_of_experience resume_text = Some 0
      \<longrightarrow> score_experience (estimate_years_of_experience jd_text) resume_text = 0.4)"
  by (auto simp: score_experience_def Let_def)

text \<open>The theorem at texts for each of its three cases, and at a resume with zero years.\<close>

theorem score_experience_cases_witness:
  "score_experience (estimate_years_of_experience ''python, 4 years'') ''python, 5 years'' = min (5 / 4) 1.2 / 1.2
   \<and> score_experience (estimate_years_of_experience ''java, 1 year'') ''python, 5 years'' = min (5 / 10) 1.0
   \<and> score_experience (estimate_years_of_experience ''python, 4 years'') ''java, 1 year'' = 0.4
   \<and> score_experience (estimate_years_of_experience ''python, 4 years'') ''0 years'' = 0.4"
  using score_experience_cases [of "''python, 4 years''" 4 "''python, 5 years''" 5]
    score_experience_cases [of "''java, 1 year''" 4 "''python, 5 years''" 5]
    score_experience_cases [of "''python, 4 years''" 4 "''java, 1 year''" 5]
    score_experience_cases [of "''python, 4 years''" 4 "''0 years''" 5]
  by (simp add: est_5 est_4 est_0 est_none)

text \<open>
  The claim as stated gives \<open>min(0 / 5, 1.2) / 1.2 = 0\<close> for a job description with
  "5 years" and a resume with "0 years", where both estimates are present; the code
  returns \<open>0.4\<close>.
\<close>

theorem score_experience_zero_counterexample:
  "estimate_years_of_experience ''python, 5 years'' = Some 5
   \<and> estimate_years_of_experience ''0 years'' = Some 0
   \<and> score_experience (estimate_years_of_experience ''python, 5 years'') ''0 years'' = 0.4
   \<and> min (0 / 5) 1.2 / 1.2 \<noteq> (0.4 :: real)"
  by (simp add: est_5 est_0 score_experience_def)

lemma round_half_even_bounds:
  assumes "0 \<le> y" and "y \<le> of_int n"
  shows "0 \<le> round_half_even y \<and> round_half_even y \<le> n"
proof -
  let ?f = "\<lfloor>y\<rfloor>"
  from assms(1) have f0: "0 \<le> ?f" by simp
  from assms(2) have fn: "?f \<le> n" by (simp add: floor_le_iff)
  have up: "?f + 1 \<le> n" if "1 / 2 \<le> y - of_int ?f"
  proof -
    from that have "of_int ?f < y" by linarith
    with assms(2) have "of_int ?f < (of_int n :: real)" by linarith
    then show ?thesis by simp
  qed
  show ?thesis
    using f0 fn up by (auto simp: round_half_even_def Let_def)
qed

lemma py_round_range:
  assumes "0 \<le> x" and "x \<le> 100"
  shows "0 \<le> py_round x 2 \<and> py_round x 2 \<le> 100"
proof -
  have "0 \<le> x * 10 ^ 2" using assms(1) by simp
  moreover have "x * 10 ^ 2 \<le> of_int 10000" using assms(2) by simp
  ultimately have b: "0 \<le> round_half_even (x * 10 ^ 2) \<and> round_half_even (x * 10 ^ 2) \<le> 10000"
    by (rule round_half_even_bounds)
  then have "0 \<le> (of_int (round_half_even (x * 10 ^ 2)) :: real)"
    and "(of_int (round_half_even (x * 10 ^ 2)) :: real) \<le> 10000"
    by simp_all
  then show ?thesis by (simp add: py_round_def)
qed

lemma blend_scores_range:
  assumes "0 \<le> a" "a \<le> 1" "0 \<le> b" "b \<le> 1" "0 \<le> c" "c \<le> 1"
  shows "0 \<le> blend_scores a b c \<and> blend_scores a b c \<le> 1"
  using assms by (simp add: blend_scores_def)

lemma score_skills_range:
  assumes "finite jd_skills"
  shows "0 \<le> score_skills jd_skills t \<and> score_skills jd_skills t \<le> 1"
proof (cases "jd_skills = {}")
  case True
  then show ?thesis by (simp add: score_skills_def)
next
  case False
  with assms have pos: "0 < card jd_skills" by (simp add: card_gt_0_iff)
  have "card (jd_skills \<inter> extract_skills t) \<le> card jd_skills"
    using assms by (simp add: card_mono)
  with pos False show ?thesis
    by (simp add: score_skills_def Let_def)
qed

lemma estimate_nonneg: "estimate_years_of_experience t = Some x \<Longrightarrow> 0 \<le> x"
  by (auto simp: estimate_years_of_experience_def Let_def split: if_splits)

lemma capped_ratio_range:
  "0 \<le> q \<Longrightarrow> 0 \<le> min q 1.2 / 1.2 \<and> min q 1.2 / 1.2 \<le> (1 :: real)"
  by (simp add: min_def)

lemma capped_tenth_range:
  "0 \<le> r \<Longrightarrow> 0 \<le> min (r / 10) 1.0 \<and> min (r / 10) 1.0 \<le> (1 :: real)"
  by (simp add: min_def)

lemma score_experience_range:
  assumes "\<And>j. jd_experience = Some j \<Longrightarrow> 0 \<le> j"
  shows "0 \<le> score_experience jd_experience t \<and> score_experience jd_experience t \<le> 1"
proof (cases "estimate_years_of_experience t")
  case None
  then show ?thesis by (simp add: score_experience_def)
next
  case (Some r)
  then have r0: "0 \<le> r" by (rule estimate_nonneg)
  show ?thesis
  proof (cases "truthy jd_experience \<and> r \<noteq> 0")
    case True
    then obtain j where j: "jd_experience = Some j" and "j \<noteq> 0"
      by (cases jd_experience) auto
    with assms have "0 \<le> j" by simp
    with r0 have "0 \<le> r / j" by simp
    then have "0 \<le> min (r / j) 1.2 / 1.2 \<and> min (r / j) 1.2 / 1.2 \<le> 1"
      by (rule capped_ratio_range)
    moreover have "score_experience jd_experience t = min (r / j) 1.2 / 1.2"
      using True Some j by (simp add: score_experience_def)
    ultimately show ?thesis by (simp only:)
  next
    case False
    show ?thesis
    proof (cases "r = 0")
      case True
      with Some show ?thesis by (simp add: score_experience_def)
    next
      case nz: False
      with False have "\<not> truthy jd_experience" by simp
      with nz Some have "score_experience jd_experience t = min (r / 10) 1.0"
        by (simp add: score_experience_def)
      with capped_tenth_range [OF r0] show ?thesis by (simp only:)
    qed
  qed
qed

lemma normalize_similarity_range:
  "0 \<le> d \<Longrightarrow> 0 \<le> normalize_similarity d \<and> normalize_similarity d \<le> 1"
  by (simp add: normalize_similarity_def)

lemma collect_results_distances:
  "collect_results mds sims order = Inr res \<Longrightarrow> (m, d) \<in> set res
     \<Longrightarrow> \<exists>i<length sims. d = 1 - sims ! i"
proof (induction order arbitrary: res)
  case Nil
  then show ?case by simp
next
  case (Cons idx order)
  then show ?case
    by (auto split: if_splits sum.splits)
qed

lemma search_distances:
  assumes "similarity_search_with_scores cosine_similarity argsort s q k = Inr res"
    and "(m, d) \<in> set res"
  shows "\<exists>v\<in>set (rows (vectors s)). d = 1 - cosine_similarity q v"
proof -
  from assms(1) obtain order where
    "collect_results (metadatas s) (map (cosine_similarity q) (rows (vectors s))) order = Inr res"
    by (auto simp: similarity_search_with_scores_def Let_def split: if_splits)
  from collect_results_distances [OF this assms(2)]
  obtain i where "i < length (rows (vectors s))"
    and "d = 1 - map (cosine_similarity q) (rows (vectors s)) ! i"
    by auto
  then have "rows (vectors s) ! i \<in> set (rows (vectors s))"
    and "d = 1 - cosine_similarity q (rows (vectors s) ! i)"
    by simp_all
  then show ?thesis by blast
qed

lemma evaluate_loop_member:
  "c \<in> set (evaluate_loop call_ollama s jd_text jd_skills jd_experience results)
     \<Longrightarrow> \<exists>md d rt. (md, d) \<in> set results
           \<and> similarity c = py_round (normalize_similarity d * 100) 2
           \<and> skill_alignment c = py_round (score_skills jd_skills rt * 100) 2
           \<and> experience_score c = py_round (score_experience jd_experience rt * 100) 2
           \<and> match_score c =
               py_round (blend_scores (normalize_similarity d) (score_skills jd_skills rt)
                           (score_experience jd_experience rt) * 100) 2"
proof (induction results)
  case Nil
  then show ?case by simp
next
  case (Cons p results)
  obtain md d where p: "p = (md, d)" by (cases p)
  show ?case
  proof (cases "get_resume_by_id s (md ''candidate_id'')")
    case None
    with Cons p show ?thesis by auto
  next
    case (Some entry)
    with Cons.prems p have
      "(similarity c = py_round (normalize_similarity d * 100) 2
        \<and> skill_alignment c = py_round (score_skills jd_skills (rtext entry) * 100) 2
        \<and> experience_score c = py_round (score_experience jd_experience (rtext entry) * 100) 2
        \<and> match_score c =
             py_round (blend_scores (normalize_similarity d) (score_skills jd_skills (rtext entry))
                         (score_experience jd_experience (rtext entry)) * 100) 2)
       \<or> c \<in> set (evaluate_loop call_ollama s jd_text jd_skills jd_experience results)"
      by (auto simp: Let_def)
    then show ?thesis
    proof
      assume "similarity c = py_round (normalize_similarity d * 100) 2
        \<and> skill_alignment c = py_round (score_skills jd_skills (rtext entry) * 100) 2
        \<and> experience_score c = py_round (score_experience jd_experience (rtext entry) * 100) 2
        \<and> match_score c =
             py_round (blend_scores (normalize_similarity d) (score_skills jd_skills (rtext entry))
                         (score_experience jd_experience (rtext entry)) * 100) 2"
      with p show ?thesis by auto
    next
      assume "c \<in> set (evaluate_loop call_ollama s jd_text jd_skills jd_experience results)"
      from Cons.IH [OF this] show ?thesis by auto
    qed
  qed
qed

lemma upt2: "[0..<2] = [0, Suc 0]"
  by (simp add: upt_rec)

lemma screening_sims: "map (cosine [1, 0]) (rows (vectors screening_store)) = [1, 0]"
  by (simp add: screening_store_def cosine_def dot_def norm_or_one_def)

lemma screening_search:
  "similarity_search_with_scores cosine argsort_stable screening_store [1, 0] None =
     Inr [(metadatas screening_store ! 0, 0), (metadatas screening_store ! 1, 1)]"
  unfolding similarity_search_with_scores_def Let_def screening_sims
  by (simp add: screening_store_def np_size_def argsort_stable_def upt2)

lemma jd_skills: "extract_skills ''python, 4 years'' = {''python''}"
  by code_simp

lemma skills_a: "score_skills (extract_skills ''python, 4 years'') (rtext resume_a) = 1"
  by code_simp

lemma skills_b: "score_skills (extract_skills ''python, 4 years'') (rtext resume_b) = 0"
  by code_simp

lemma exp_a: "score_experience (estimate_years_of_experience ''python, 4 years'') (rtext resume_a) = 1"
  by code_simp

lemma exp_b: "score_experience (estimate_years_of_experience ''python, 4 years'') (rtext resume_b) = 0.4"
  by code_simp

lemma round_a: "py_round (blend_scores (normalize_similarity 0) 1 1 * 100) 2 = 100"
  by code_simp

lemma round_b: "py_round (blend_scores (normalize_similarity 1) 0 0.4 * 100) 2 = 35.5"
  by code_simp

lemma screening_loop:
  "map match_score (evaluate_loop call_refused screening_store ''python, 4 years''
      (extract_skills ''python, 4 years'') (estimate_years_of_experience ''python, 4 years'')
      [(metadatas screening_store ! 0, 0), (metadatas screening_store ! 1, 1)]) = [100, 35.5]"
proof -
  have a: "get_resume_by_id screening_store ((metadatas screening_store ! 0) ''candidate_id'') = Some resume_a"
    and b: "get_resume_by_id screening_store ((metadatas screening_store ! Suc 0) ''candidate_id'') = Some resume_b"
    by (simp_all add: get_resume_by_id_def screening_store_def)
  have "map match_score (evaluate_loop call_refused screening_store ''python, 4 years''
      (extract_skills ''python, 4 years'') (estimate_years_of_experience ''python, 4 years'')
      [(metadatas screening_store ! 0, 0), (metadatas screening_store ! 1, 1)])
    = [py_round (blend_scores (normalize_similarity 0)
                   (score_skills (extract_skills ''python, 4 years'') (rtext resume_a))
                   (score_experience (estimate_years_of_experience ''python, 4 years'') (rtext resume_a))
                 * 100) 2,
       py_round (blend_scores (normalize_similarity 1)
                   (score_skills (extract_skills ''python, 4 years'') (rtext resume_b))
                   (score_experience (estimate_years_of_experience ''python, 4 years'') (rtext resume_b))
                 * 100) 2]"
    by (simp add: a b Let_def)
  also have "\<dots> = [100, 35.5]"
    by (simp only: skills_a skills_b exp_a exp_b round_a round_b)
  finally show ?thesis .
qed

text \<open>
  Claim C2. Every candidate that \<open>evaluate\<close> returns has three component scores in
  \<open>[0, 1]\<close>: the similarity \<open>1 / (1 + distance)\<close>, the skill alignment and the experience
  score, which the record reports times 100 and rounded. Its match score is the blend
  \<open>0.55 * similarity + 0.25 * skill + 0.2 * experience\<close> of them, times 100 and rounded to two
  places, and lies in \<open>[0, 100]\<close>. The similarity is at most one because a distance is not
  negative: the cosine similarity of the library, a parameter here, is at most one.
\<close>

theorem match_score_weighted_and_bounded:
  assumes "\<forall>v\<in>set (rows (vectors s)). cosine_similarity jd_vector v \<le> 1"
    and "evaluate cosine_similarity argsort call_ollama s jd_text jd_vector top_k = Inr evaluations"
    and "c \<in> set evaluations"
  shows "\<exists>sim skill experience.
           0 \<le> sim \<and> sim \<le> 1 \<and> 0 \<le> skill \<and> skill \<le> 1 \<and> 0 \<le> experience \<and> experience \<le> 1
           \<and> similarity c = py_round (sim * 100) 2
           \<and> skill_alignment c = py_round (skill * 100) 2
           \<and> experience_score c = py_round (experience * 100) 2
           \<and> blend_scores sim skill experience = 0.55 * sim + 0.25 * skill + 0.2 * experience
           \<and> match_score c = py_round (blend_scores sim skill experience * 100) 2
           \<and> 0 \<le> match_score c \<and> match_score c \<le> 100"
proof -
  let ?skills = "extract_skills jd_text"
  let ?exp = "estimate_years_of_experience jd_text"
  from assms(2) obtain results where
    sr: "similarity_search_with_scores cosine_similarity argsort s jd_vector top_k = Inr results"
    and ev: "evaluations = sort_key (\<lambda>c. - match_score c) (evaluate_loop call_ollama s jd_text ?skills ?exp results)"
    by (auto simp: evaluate_def Let_def split: sum.splits)
  from assms(3) ev have "c \<in> set (evaluate_loop call_ollama s jd_text ?skills ?exp results)"
    by simp
  from evaluate_loop_member [OF this] obtain md d rt where
    mem: "(md, d) \<in> set results"
    and fs: "similarity c = py_round (normalize_similarity d * 100) 2"
      "skill_alignment c = py_round (score_skills ?skills rt * 100) 2"
      "experience_score c = py_round (score_experience ?exp rt * 100) 2"
    and ms: "match_score c = py_round (blend_scores (normalize_similarity d) (score_skills ?skills rt)
                                        (score_experience ?exp rt) * 100) 2"
    by blast
  from search_distances [OF sr mem] assms(1) have "0 \<le> d" by auto
  then have sim: "0 \<le> normalize_similarity d \<and> normalize_similarity d \<le> 1"
    by (rule normalize_similarity_range)
  have "finite ?skills" by (simp add: extract_skills_def)
  then have sk: "0 \<le> score_skills ?skills rt \<and> score_skills ?skills rt \<le> 1"
    by (rule score_skills_range)
  have ex: "0 \<le> score_experience ?exp rt \<and> score_experience ?exp rt \<le> 1"
    by (rule score_experience_range) (rule estimate_nonneg)
  let ?b = "blend_scores (normalize_similarity d) (score_skills ?skills rt) (score_experience ?exp rt)"
  from sim sk ex have b: "0 \<le> ?b \<and> ?b \<le> 1"
    by (intro blend_scores_range) simp_all
  then have "0 \<le> ?b * 100" and "?b * 100 \<le> 100" by simp_all
  then have "0 \<le> py_round (?b * 100) 2 \<and> py_round (?b * 100) 2 \<le> 100"
    by (rule py_round_range)
  with ms have rng: "0 \<le> match_score c \<and> match_score c \<le> 100" by simp
  have w: "?b = 0.55 * normalize_similarity d + 0.25 * score_skills ?skills rt
                 + 0.2 * score_experience ?exp rt"
    by (simp add: blend_scores_def)
  from sim sk ex fs w ms rng show ?thesis by blast
qed

text \<open>
  The theorem at a screening run on two resumes with a generation service that is down:
  the match scores are 100 and 35.5, and the first candidate's score is as the theorem says.
\<close>

theorem match_score_weighted_and_bounded_witness:
  "map match_score (projr screening_run) = [100, 35.5]
   \<and> (\<exists>sim skill experience.
     0 \<le> sim \<and> sim \<le> 1 \<and> 0 \<le> skill \<and> skill \<le> 1 \<and> 0 \<le> experience \<and> experience \<le> 1
     \<and> similarity (hd (projr screening_run)) = py_round (sim * 100) 2
     \<and> skill_alignment (hd (projr screening_run)) = py_round (skill * 100) 2
     \<and> experience_score (hd (projr screening_run)) = py_round (experience * 100) 2
     \<and> blend_scores sim skill experience = 0.55 * sim + 0.25 * skill + 0.2 * experience
     \<and> match_score (hd (projr screening_run)) = py_round (blend_scores sim skill experience * 100) 2
     \<and> 0 \<le> match_score (hd (projr screening_run)) \<and> match_score (hd (projr screening_run)) \<le> 100)"
proof -
  let ?loop = "evaluate_loop call_refused screening_store ''python, 4 years''
      (extract_skills ''python, 4 years'') (estimate_years_of_experience ''python, 4 years'')
      [(metadatas screening_store ! 0, 0), (metadatas screening_store ! 1, 1)]"
  let ?L = "sort_key (\<lambda>c. - match_score c) ?loop"
  have ev: "evaluate cosine argsort_stable call_refused screening_store ''python, 4 years'' [1, 0] None
              = Inr ?L"
    by (simp add: evaluate_def screening_search Let_def)
  from screening_loop obtain a b where ab: "?loop = [a, b]" "match_score a = 100" "match_score b = 35.5"
    by (auto simp: map_eq_Cons_conv)
  then have L: "?L = [a, b]" by simp
  then have mem: "hd ?L \<in> set ?L" by simp
  have hyp: "\<forall>v\<in>set (rows (vectors screening_store)). cosine [1, 0] v \<le> 1"
    by (simp add: screening_store_def cosine_def dot_def norm_or_one_def)
  have run: "projr screening_run = ?L"
    by (simp add: screening_run_def ev)
  have scores: "map match_score (projr screening_run) = [100, 35.5]"
    unfolding run L using ab by simp
  from match_score_weighted_and_bounded [OF hyp ev mem] scores
  show ?thesis unfolding run by blast
qed

section \<open>Properties of the generation client\<close>

lemma split_sentences_nonempty: "s \<in> set (split_sentences t) \<Longrightarrow> s \<noteq> []"
  by (simp add: split_sentences_def)

lemma join_space_nonempty: "xs \<noteq> [] \<Longrightarrow> hd xs \<noteq> [] \<Longrightarrow> join_space xs \<noteq> []"
  by (cases xs rule: join_space.cases) auto

lemma summary_nonempty:
  assumes "split_sentences t \<noteq> []"
  shows "join_space (take 3 (split_sentences t)) \<noteq> []"
proof (rule join_space_nonempty)
  show "take 3 (split_sentences t) \<noteq> []" using assms by simp
  have "hd (take 3 (split_sentences t)) = hd (split_sentences t)" by simp
  moreover have "hd (split_sentences t) \<in> set (split_sentences t)" using assms by simp
  ultimately show "hd (take 3 (split_sentences t)) \<noteq> []"
    using split_sentences_nonempty by metis
qed

lemma four_split:
  "split_sentences four_sentences = [''Built APIs.'', ''Led a team!'', ''Shipped it?'', ''Left.'']"
  by code_simp

lemma empty_split: "split_sentences [] = []"
  by code_simp

text \<open>
  Claim C6, as the code has it. \<open>analyze_candidate\<close> returns a dictionary whatever the
  call to the generation service does; no exception leaves it. When the call fails, the
  result has the three keys with the two fixed sentences for strengths and weaknesses;
  the reasoning is the first three sentences of the resume text joined by blanks, or the
  fixed text \<open>Summary unavailable.\<close> when the text has no sentence. None of the three
  values is empty.
\<close>

theorem analyze_candidate_fallback:
  assumes "call_ollama (format_prompt name job_description resume_text) = Inl exc"
  shows "analyze_candidate call_ollama name job_description resume_text =
           [(''strengths'', ''Solid baseline profile with relevant experience.''),
            (''weaknesses'', ''Needs deeper alignment verification via interview.''),
            (''reasoning'',
               if split_sentences resume_text = [] then ''Summary unavailable.''
               else join_space (take 3 (split_sentences resume_text)))]
         \<and> [] \<notin> snd ` set (analyze_candidate call_ollama name job_description resume_text)"
proof -
  have eq: "analyze_candidate call_ollama name job_description resume_text =
           [(''strengths'', ''Solid baseline profile with relevant experience.''),
            (''weaknesses'', ''Needs deeper alignment verification via interview.''),
            (''reasoning'',
               if split_sentences resume_text = [] then ''Summary unavailable.''
               else join_space (take 3 (split_sentences resume_text)))]"
    using assms by (simp add: analyze_candidate_def Let_def)
  show ?thesis
    unfolding eq using summary_nonempty [of resume_text] by auto
qed

text \<open>The theorem at a refused connection and a resume text of four sentences.\<close>

theorem analyze_candidate_fallback_witness:
  "analyze_candidate call_refused ''A'' ''python, 4 years'' four_sentences =
     [(''strengths'', ''Solid baseline profile with relevant experience.''),
      (''weaknesses'', ''Needs deeper alignment verification via interview.''),
      (''reasoning'', ''Built APIs. Led a team! Shipped it?'')]
   \<and> [] \<notin> snd ` set (analyze_candidate call_refused ''A'' ''python, 4 years'' four_sentences)"
proof -
  have c: "call_refused (format_prompt ''A'' ''python, 4 years'' four_sentences)
             = Inl (RequestError ''connection refused'')"
    by (simp add: call_refused_def)
  have j: "join_space (take 3 (split_sentences four_sentences)) = ''Built APIs. Led a team! Shipped it?''"
    unfolding four_split by simp
  show ?thesis
    using analyze_candidate_fallback [of call_refused "''A''" "''python, 4 years''" four_sentences
        "RequestError ''connection refused''"] c j
    by (simp add: four_split)
qed

text \<open>
  The claim has the reasoning made from the first three sentences for every resume text.
  An empty text has no sentence: joining its first three sentences gives the empty
  string, and the code returns \<open>Summary unavailable.\<close> instead.
\<close>

theorem analyze_candidate_empty_counterexample:
  "analyze_candidate call_refused ''A'' ''python, 4 years'' [] =
     [(''strengths'', ''Solid baseline profile with relevant experience.''),
      (''weaknesses'', ''Needs deeper alignment verification via interview.''),
      (''reasoning'', ''Summary unavailable.'')]
   \<and> split_sentences [] = []
   \<and> join_space (take 3 (split_sentences [])) \<noteq> ''Summary unavailable.''"
  by (simp add: analyze_candidate_def call_refused_def empty_split)

lemma dict_set_section:
  "dict_set (heading_key h) v (as_dict secs) = as_dict (heading_put h v secs)"
  by (cases h; cases secs) (simp_all add: heading_key_def as_dict_def)

lemma dict_get_section:
  "dict_get (as_dict secs) (heading_key h) = heading_get h secs"
  by (cases h; cases secs) (simp_all add: heading_key_def as_dict_def)

lemma parse_line_header:
  "header_of line = Some h \<Longrightarrow>
   parse_line (cur, as_dict secs) line =
     (Some (heading_key h), as_dict (heading_put h (strip (after_first_colon line)) secs))"
  by (cases h)
     (auto simp: header_of_def parse_line_def Let_def heading_key_def dict_set_section [unfolded heading_key_def, of Strengths, simplified]
        dict_set_section [unfolded heading_key_def, of Weaknesses, simplified]
        dict_set_section [unfolded heading_key_def, of Reasoning, simplified] split: if_splits)

lemma parse_line_other:
  "header_of line = None \<Longrightarrow>
   parse_line (map_option heading_key cur, as_dict secs) line =
     (map_option heading_key cur,
      case cur of
        Some k \<Rightarrow> as_dict (heading_put k (heading_get k secs @ '' '' @ strip line) secs)
      | None \<Rightarrow> as_dict secs)"
  by (cases cur)
     (auto simp: header_of_def parse_line_def Let_def dict_set_section dict_get_section split: if_splits)

lemma foldl_parse_line:
  "snd (foldl parse_line (map_option heading_key cur, as_dict secs) ls) = as_dict (line_scan cur secs ls)"
proof (induction ls arbitrary: cur secs)
  case Nil
  show ?case by simp
next
  case (Cons line rest)
  show ?case
  proof (cases "header_of line")
    case None
    show ?thesis
    proof (cases cur)
      case n: None
      with None Cons.IH [of None secs] parse_line_other [OF None, of None secs]
      show ?thesis by simp
    next
      case (Some k)
      with None Cons.IH [of "Some k"] parse_line_other [OF None, of "Some k" secs]
      show ?thesis by simp
    qed
  next
    case (Some h)
    from parse_line_header [OF Some, of "map_option heading_key cur" secs]
      Cons.IH [of "Some h"] Some
    show ?thesis by simp
  qed
qed

lemma or_not_provided_nonempty: "or_not_provided v \<noteq> []"
  by (simp add: or_not_provided_def)

text \<open>
  Claim C7, as the code has it. For every input the parser returns the three keys
  \<open>strengths\<close>, \<open>weaknesses\<close> and \<open>reasoning\<close>, in this order, with the values the line scan
  \<open>line_scan\<close> computes, each stripped and replaced by \<open>Not provided.\<close> when empty; no value
  is empty. In the scan a line is a header of the first section whose word it contains,
  in the order strengths, weaknesses, reasoning. The example of the claim is the last
  conjunct.
\<close>

theorem parse_llm_response_line_scan:
  "parse_llm_response content =
     (case line_scan None ([], [], []) (splitlines content) of
        (s, w, r) \<Rightarrow> [(''strengths'', or_not_provided s), (''weaknesses'', or_not_provided w),
                      (''reasoning'', or_not_provided r)])
   \<and> map fst (parse_llm_response content) = [''strengths'', ''weaknesses'', ''reasoning'']
   \<and> [] \<notin> snd ` set (parse_llm_response content)
   \<and> parse_llm_response
        (''Strengths: Good coder'' @ newline @ ''Weaknesses: slow'' @ newline @ ''Reasoning: solid fit'') =
       [(''strengths'', ''Good coder''), (''weaknesses'', ''slow''), (''reasoning'', ''solid fit'')]"
proof -
  obtain s w r where sc: "line_scan None ([], [], []) (splitlines content) = (s, w, r)"
    by (cases "line_scan None ([], [], []) (splitlines content)") auto
  have "snd (foldl parse_line (None, [(''strengths'', []), (''weaknesses'', []), (''reasoning'', [])])
               (splitlines content)) = as_dict (s, w, r)"
    using foldl_parse_line [of None "([], [], [])" "splitlines content"] sc
    by (simp add: as_dict_def)
  then have eq: "parse_llm_response content =
      [(''strengths'', or_not_provided s), (''weaknesses'', or_not_provided w),
       (''reasoning'', or_not_provided r)]"
    by (simp add: parse_llm_response_def Let_def as_dict_def or_not_provided_def)
  have ex: "parse_llm_response
        (''Strengths: Good coder'' @ newline @ ''Weaknesses: slow'' @ newline @ ''Reasoning: solid fit'') =
       [(''strengths'', ''Good coder''), (''weaknesses'', ''slow''), (''reasoning'', ''solid fit'')]"
    by code_simp
  have a: "parse_llm_response content =
     (case line_scan None ([], [], []) (splitlines content) of
        (s, w, r) \<Rightarrow> [(''strengths'', or_not_provided s), (''weaknesses'', or_not_provided w),
                      (''reasoning'', or_not_provided r)])"
    unfolding eq sc by simp
  have b: "map fst (parse_llm_response content) = [''strengths'', ''weaknesses'', ''reasoning'']"
    unfolding eq by simp
  have c: "[] \<notin> snd ` set (parse_llm_response content)"
    unfolding eq
    using or_not_provided_nonempty [of s] or_not_provided_nonempty [of w]
      or_not_provided_nonempty [of r]
    by auto
  show ?thesis
    by (rule conjI [OF a conjI [OF b conjI [OF c ex]]])
qed

text \<open>
  The claim lets every line that contains "weakness" start the weaknesses section. The
  code tests for "strength" first: the line \<open>Weaknesses: lacks strength\<close> contains both
  words and starts the strengths section, and the weaknesses stay \<open>Not provided.\<close>.
\<close>

theorem parse_header_order_counterexample:
  "parse_llm_response ''Weaknesses: lacks strength'' =
     [(''strengths'', ''lacks strength''), (''weaknesses'', ''Not provided.''),
      (''reasoning'', ''Not provided.'')]
   \<and> contains ''weakness'' (lower ''Weaknesses: lacks strength'')"
  by code_simp

end
